theory Spec2Isabelle
  imports Main
begin

section \<open>JavaScript strings\<close>

text \<open>
  The routes of \<^verbatim>\<open>server/routes.ts\<close> work on JavaScript strings. A string is modelled
  as a \<^typ>\<open>string\<close>, each \<^typ>\<open>char\<close> read as one code unit below 256 (ASCII and
  Latin-1). On that range \<^verbatim>\<open>toLowerCase\<close> maps \<^verbatim>\<open>A-Z\<close> and the letters
  \<^verbatim>\<open>U+00C0..U+00DE\<close> (but the multiplication sign \<^verbatim>\<open>U+00D7\<close>) 32 places up and
  leaves every other code unit as it is. \<^verbatim>\<open>toUpperCase\<close> maps \<^verbatim>\<open>a-z\<close> and
  \<^verbatim>\<open>U+00E0..U+00FE\<close> (but the division sign \<^verbatim>\<open>U+00F7\<close>) 32 places down and the
  sharp s \<^verbatim>\<open>U+00DF\<close> to \<^verbatim>\<open>SS\<close>; the upper-case forms of \<^verbatim>\<open>U+00B5\<close> and
  \<^verbatim>\<open>U+00FF\<close> lie beyond code unit 255, and the model leaves these two as they are.
\<close>

definition toLowerCaseChar :: "char \<Rightarrow> char" where
  "toLowerCaseChar c =
     (let n = (of_char c :: nat)
      in if (65 \<le> n \<and> n \<le> 90) \<or> (192 \<le> n \<and> n \<le> 222 \<and> n \<noteq> 215)
         then char_of (n + 32) else c)"

definition toLowerCase :: "string \<Rightarrow> string" where
  "toLowerCase s = map toLowerCaseChar s"

definition toUpperCaseChar :: "char \<Rightarrow> string" where
  "toUpperCaseChar c =
     (let n = (of_char c :: nat)
      in if (97 \<le> n \<and> n \<le> 122) \<or> (224 \<le> n \<and> n \<le> 254 \<and> n \<noteq> 247)
         then [char_of (n - 32)]
         else if n = 223 then ''SS'' else [c])"

text \<open>\<^verbatim>\<open>s.split(sep)\<close> for a separator of one character: an empty string gives one
  empty piece, and two separators in a row give an empty piece between them.\<close>

fun splitOn :: "char \<Rightarrow> string \<Rightarrow> string list" where
  "splitOn sep [] = [[]]"
| "splitOn sep (c # cs) =
     (if c = sep then [] # splitOn sep cs
      else (case splitOn sep cs of
              [] \<Rightarrow> [[c]]
            | w # ws \<Rightarrow> (c # w) # ws))"

text \<open>\<^verbatim>\<open>xs.join(sep)\<close>.\<close>

fun joinWith :: "string \<Rightarrow> string list \<Rightarrow> string" where
  "joinWith sep [] = []"
| "joinWith sep [x] = x"
| "joinWith sep (x # y # ys) = x @ sep @ joinWith sep (y # ys)"

text \<open>\<^verbatim>\<open>s.replace(pat, rep)\<close> with a string pattern: only the first occurrence of
  \<^verbatim>\<open>pat\<close> is replaced, wherever it stands.\<close>

fun replaceFirst :: "string \<Rightarrow> string \<Rightarrow> string \<Rightarrow> string" where
  "replaceFirst pat rep [] = (if pat = [] then rep else [])"
| "replaceFirst pat rep (c # cs) =
     (if take (length pat) (c # cs) = pat then rep @ drop (length pat) (c # cs)
      else c # replaceFirst pat rep cs)"

text \<open>\<^verbatim>\<open>w.charAt(0).toUpperCase() + w.slice(1)\<close>, the step of the title case.\<close>

definition capitalize :: "string \<Rightarrow> string" where
  "capitalize w = (case w of [] \<Rightarrow> [] | c # cs \<Rightarrow> toUpperCaseChar c @ cs)"

subsection \<open>The slug of a keyword\<close>

text \<open>
  Both uses of the slug in \<^verbatim>\<open>POST /api/pages/generate\<close> are the expression
  \<^verbatim>\<open>keyword.toLowerCase().replace(/[^a-z0-9]+/g, '-').replace(/^-|-$/g, '')\<close>.
\<close>

definition isLowerAlnum :: "char \<Rightarrow> bool" where
  "isLowerAlnum c =
     (let n = (of_char c :: nat)
      in (97 \<le> n \<and> n \<le> 122) \<or> (48 \<le> n \<and> n \<le> 57))"

text \<open>\<^verbatim>\<open>replace(/[^a-z0-9]+/g, '-')\<close>: every maximal run of characters outside
  \<^verbatim>\<open>[a-z0-9]\<close> becomes one dash.\<close>

function replaceNonAlnumRuns :: "string \<Rightarrow> string" where
  "replaceNonAlnumRuns [] = []"
| "replaceNonAlnumRuns (c # cs) =
     (if isLowerAlnum c then c # replaceNonAlnumRuns cs
      else CHR ''-'' # replaceNonAlnumRuns (dropWhile (\<lambda>d. \<not> isLowerAlnum d) cs))"
  by pat_completeness auto
termination
  by (relation "measure length") (auto simp: length_dropWhile_le less_Suc_eq_le)

text \<open>\<^verbatim>\<open>replace(/^-|-$/g, '')\<close>: the global pattern matches a dash at the start, and
  then a dash at the end among the characters that are left.\<close>

definition stripLeadingDash :: "string \<Rightarrow> string" where
  "stripLeadingDash s = (case s of [] \<Rightarrow> [] | c # cs \<Rightarrow> if c = CHR ''-'' then cs else s)"

definition stripTrailingDash :: "string \<Rightarrow> string" where
  "stripTrailingDash s = (if s \<noteq> [] \<and> last s = CHR ''-'' then butlast s else s)"

definition stripEdgeDashes :: "string \<Rightarrow> string" where
  "stripEdgeDashes s = stripTrailingDash (stripLeadingDash s)"

definition keywordSlug :: "string \<Rightarrow> string" where
  "keywordSlug keyword = stripEdgeDashes (replaceNonAlnumRuns (toLowerCase keyword))"

text \<open>A string is shaped like a slug when it holds only \<^verbatim>\<open>[a-z0-9]\<close> and dashes and
  every dash but the last character is followed by a character of \<^verbatim>\<open>[a-z0-9]\<close>.\<close>

fun slugShaped :: "string \<Rightarrow> bool" where
  "slugShaped [] = True"
| "slugShaped [c] = (isLowerAlnum c \<or> c = CHR ''-'')"
| "slugShaped (c # d # cs) =
     ((isLowerAlnum c \<or> (c = CHR ''-'' \<and> isLowerAlnum d)) \<and> slugShaped (d # cs))"

section \<open>Data model\<close>

text \<open>
  Modelled from the spec: the record types of \<^verbatim>\<open>shared/schema\<close> (\<^verbatim>\<open>Emoji\<close>,
  \<^verbatim>\<open>InsertEmoji\<close>, \<^verbatim>\<open>SeoPage\<close> and \<^verbatim>\<open>InsertSeoPage\<close>) are missing from the
  sources. Their fields are the ones the routes and the pages of the client read, typed
  as the data model of the specification gives them: an emoji has an "id (unique), emoji
  glyph, name, slug ..., category, optional subcategory, optional description, ordered set
  of keyword strings, copy counter", a page an "id (unique), slug ..., keyword, title, meta
  description, optional markdown content, optional ordered list of related emoji glyphs,
  boolean generated flag". A field \<^verbatim>\<open>f\<close> is named \<^verbatim>\<open>emoji_f\<close> or \<^verbatim>\<open>page_f\<close>, since
  the routes use the plain names (\<^verbatim>\<open>keyword\<close>, \<^verbatim>\<open>content\<close>, \<^verbatim>\<open>id\<close>) for their local
  variables. An optional field is an \<^typ>\<open>'a option\<close>. The record a route inserts has no
  id yet; the stored record extends it.
\<close>

record insertEmoji =
  emoji_emoji :: string
  emoji_name :: string
  emoji_slug :: string
  emoji_category :: string
  emoji_subcategory :: "string option"
  emoji_description :: "string option"
  emoji_keywords :: "string list"

record emoji = insertEmoji +
  emoji_id :: int
  emoji_copyCount :: int

record insertSeoPage =
  page_slug :: string
  page_title :: string
  page_keyword :: string
  page_metaDescription :: string
  page_content :: "string option"
  page_relatedEmojis :: "string list option"
  page_isGenerated :: bool

record seoPage = insertSeoPage +
  page_id :: int

text \<open>The second argument of \<^verbatim>\<open>storage.updatePage\<close>: the fields to overwrite. The
  routes pass \<^verbatim>\<open>title\<close>, \<^verbatim>\<open>metaDescription\<close>, \<^verbatim>\<open>content\<close>,
  \<^verbatim>\<open>relatedEmojis\<close> and \<^verbatim>\<open>isGenerated\<close>; a field that is not passed is \<^const>\<open>None\<close>.\<close>

record pageUpdate =
  set_title :: "string option"
  set_metaDescription :: "string option"
  set_content :: "string option"
  set_relatedEmojis :: "string list option"
  set_isGenerated :: "bool option"

section \<open>The content generator\<close>

definition nl :: string where
  "nl = [CHR 0x0A]"

text \<open>\<^verbatim>\<open>v || d\<close> for an optional string \<^verbatim>\<open>v\<close>: a missing and an empty string are
  both falsy.\<close>

definition orElse :: "string option \<Rightarrow> string \<Rightarrow> string" where
  "orElse v d = (case v of None \<Rightarrow> d | Some s \<Rightarrow> if s = [] then d else s)"

text \<open>The fields of a related emoji that \<^verbatim>\<open>generateSeoContent\<close> reads: the
  expressions \<^verbatim>\<open>e.emoji\<close>, \<^verbatim>\<open>e.name\<close> and \<^verbatim>\<open>e.description\<close> of its two
  \<^verbatim>\<open>map\<close> calls. It reads no other field of the records it is given.\<close>

definition readFields :: "emoji \<Rightarrow> string \<times> string \<times> string option" where
  "readFields e = (emoji_emoji e, emoji_name e, emoji_description e)"

text \<open>
  The two listings of \<^verbatim>\<open>generateSeoContent\<close>: the constant \<^verbatim>\<open>emojiSamples\<close>,
  glyph and name of each of \<^verbatim>\<open>relatedEmojis.slice(0, 10)\<close> joined by commas, and the
  items of the list under the heading "Popular", the \<^verbatim>\<open>map\<close> over
  \<^verbatim>\<open>relatedEmojis.slice(0, 10)\<close> of the template, before its \<^verbatim>\<open>join\<close>.
\<close>

definition emojiSamples :: "emoji list \<Rightarrow> string" where
  "emojiSamples relatedEmojis =
     joinWith '', '' (map (\<lambda>e. emoji_emoji e @ '' '' @ emoji_name e) (take 10 relatedEmojis))"

definition popularItems :: "string \<Rightarrow> emoji list \<Rightarrow> string list" where
  "popularItems cleanKeyword relatedEmojis =
     map (\<lambda>e. ''- '' @ emoji_emoji e @ '' **'' @ emoji_name e @ ''** - '' @
               orElse (emoji_description e) (''A popular emoji for expressing '' @ cleanKeyword))
       (take 10 relatedEmojis)"

text \<open>
  \<^verbatim>\<open>generateSeoContent(keyword, relatedEmojis)\<close> of \<^verbatim>\<open>server/routes.ts\<close>. The
  template literal is the list of its pieces, in order; \<^verbatim>\<open>popular\<close> and
  \<^verbatim>\<open>related\<close> name the two interpolated expressions that read the emoji list.
\<close>

definition generateSeoContent :: "string \<Rightarrow> emoji list \<Rightarrow> string" where
  "generateSeoContent keyword relatedEmojis =
     (let title = joinWith '' '' (map capitalize (splitOn (CHR '' '') keyword));
          cleanKeyword = replaceFirst '' emoji'' [] keyword;
          popular = joinWith nl (popularItems cleanKeyword relatedEmojis);
          related = (if length relatedEmojis > 0
                     then ''Related emojis include '' @ emojiSamples relatedEmojis @ ''.''
                     else [])
      in concat [
        ''# '', title, '' - Copy & Paste'', nl,
        nl,
        ''Looking for the perfect **'', keyword, ''** to use in your messages? You've come to the right place! Simply click any emoji below to copy it to your clipboard instantly.'', nl,
        nl,
        ''## Popular '', title, ''s'', nl,
        nl,
        popular, nl,
        nl,
        ''## How to Use '', title, nl,
        nl,
        ''Using '', keyword, ''s is easy! Just click on any emoji above and it will be copied to your clipboard. Then paste it anywhere - in text messages, social media posts, emails, or documents.'', nl,
        nl,
        ''### Where to Use '', title, nl,
        nl,
        ''- **Text Messages**: Add expression to your iMessage, WhatsApp, or Telegram chats'', nl,
        ''- **Social Media**: Make your Instagram, Twitter/X, Facebook, and TikTok posts stand out'', nl,
        ''- **Email**: Add a personal touch to casual emails'', nl,
        ''- **Documents**: Use in Google Docs, Microsoft Word, and other editors'', nl,
        nl,
        ''## About '', title, nl,
        nl,
        ''The '', keyword, '' is one of the most popular emojis used in digital communication. It helps convey emotions and add personality to text-based conversations. '', related, nl,
        nl,
        ''## Frequently Asked Questions'', nl,
        nl,
        ''### How do I copy the '', keyword, ''?'', nl,
        ''Simply click on the emoji and it will be automatically copied to your clipboard. Then use Ctrl+V (or Cmd+V on Mac) to paste it anywhere.'', nl,
        nl,
        ''### Can I use the '', keyword, '' on any device?'', nl,
        ''Yes! Emojis are universal and work on all modern devices including iPhone, Android, Windows, and Mac computers.'', nl,
        nl,
        ''### What does the '', keyword, '' mean?'', nl,
        ''The '', keyword, '' is commonly used to express feelings related to '', cleanKeyword, ''. Its meaning can vary slightly depending on context and culture.''
      ])"

text \<open>
  The second copy of the routes among the sources has the same handlers and a longer
  template: sections for iPhone, Android and PC, and two more questions.
\<close>

definition generateSeoContent_part_000 :: "string \<Rightarrow> emoji list \<Rightarrow> string" where
  "generateSeoContent_part_000 keyword relatedEmojis =
     (let title = joinWith '' '' (map capitalize (splitOn (CHR '' '') keyword));
          cleanKeyword = replaceFirst '' emoji'' [] keyword;
          popular = joinWith nl (popularItems cleanKeyword relatedEmojis);
          related = (if length relatedEmojis > 0
                     then ''Related emojis include '' @ emojiSamples relatedEmojis @ ''.''
                     else [])
      in concat [
        ''# '', title, '' - Copy & Paste'', nl,
        nl,
        ''Looking for the perfect **'', keyword, ''** to use in your messages? You've come to the right place! Simply click any emoji below to copy it to your clipboard instantly.'', nl,
        nl,
        ''## Popular '', title, ''s'', nl,
        nl,
        popular, nl,
        nl,
        ''## How to Use '', title, nl,
        nl,
        ''Using '', keyword, ''s is easy! Just click on any emoji above and it will be copied to your clipboard. Then paste it anywhere - in text messages, social media posts, emails, or documents.'', nl,
        nl,
        ''### How to Use '', title, '' on iPhone'', nl,
        nl,
        ''1. Visit this page on your iPhone's Safari or Chrome browser'', nl,
        ''2. Tap the '', keyword, '' you want to copy'', nl,
        ''3. The emoji is now copied to your clipboard'', nl,
        ''4. Open any app like iMessage, WhatsApp, Instagram, or Notes'', nl,
        ''5. Tap and hold the text field and select **Paste**'', nl,
        ''6. You can also access emojis through your iPhone keyboard by tapping the smiley face icon'', nl,
        nl,
        ''### How to Use '', title, '' on Android'', nl,
        nl,
        ''1. Open this page in Chrome or any browser on your Android phone'', nl,
        ''2. Tap the '', keyword, '' you want to use'', nl,
        ''3. It will be copied to your clipboard automatically'', nl,
        ''4. Switch to any app like Messages, WhatsApp, Telegram, or Facebook'', nl,
        ''5. Long press in the text field and tap **Paste**'', nl,
        ''6. Android users can also find emojis by tapping the emoji icon on the Gboard keyboard'', nl,
        nl,
        ''### How to Use '', title, '' on PC (Windows & Mac)'', nl,
        nl,
        ''1. Open this page on your computer browser (Chrome, Firefox, Edge, or Safari)'', nl,
        ''2. Click on the '', keyword, '' you want to copy'', nl,
        ''3. The emoji is instantly copied to your clipboard'', nl,
        ''4. Open any app or website where you want to paste it'', nl,
        ''5. Press **Ctrl+V** (Windows) or **Cmd+V** (Mac) to paste'', nl,
        ''6. On Windows, you can also press **Win + .** (period) to open the emoji picker. On Mac, press **Ctrl + Cmd + Space**'', nl,
        nl,
        ''## About '', title, nl,
        nl,
        ''The '', keyword, '' is one of the most popular emojis used in digital communication. It helps convey emotions and add personality to text-based conversations. '', related, nl,
        nl,
        ''## Frequently Asked Questions'', nl,
        nl,
        ''### How do I copy the '', keyword, ''?'', nl,
        ''Simply click on the emoji and it will be automatically copied to your clipboard. Then use Ctrl+V (or Cmd+V on Mac) to paste it anywhere.'', nl,
        nl,
        ''### Can I use the '', keyword, '' on any device?'', nl,
        ''Yes! Emojis are universal and work on all modern devices including iPhone, Android, Windows, and Mac computers.'', nl,
        nl,
        ''### What does the '', keyword, '' mean?'', nl,
        ''The '', keyword, '' is commonly used to express feelings related to '', cleanKeyword, ''. Its meaning can vary slightly depending on context and culture.'', nl,
        nl,
        ''### Do '', keyword, ''s look the same on iPhone and Android?'', nl,
        title, ''s may look slightly different on iPhone (Apple) vs Android (Google) devices. Each platform has its own emoji design style, but the meaning stays the same.'', nl,
        nl,
        ''### Can I use '', keyword, ''s in emails?'', nl,
        ''Yes! You can paste '', keyword, ''s into any email client including Gmail, Outlook, Yahoo Mail, and Apple Mail. They work in both the subject line and the body of the email.''
      ])"

section \<open>The storage interface\<close>

text \<open>
  The routes reach the database through the object \<^verbatim>\<open>storage\<close> of
  \<^verbatim>\<open>server/storage\<close>, which is not among the source files. The routes are therefore
  modelled over any implementation of it: a record of the operations they call, on a
  state \<^typ>\<open>'st\<close>. Every operation is awaited and may reject, so each returns a sum,
  \<^const>\<open>Inl\<close> the error. A query returns its answer; a command returns its answer and
  the new state, and a command that rejects leaves the state as it was. The result types
  are read off the routes: they test the results of the lookups and of
  \<^verbatim>\<open>updatePage\<close> for a missing record, ignore the result of \<^verbatim>\<open>createEmojis\<close>, and send
  the result of \<^verbatim>\<open>incrementCopyCount\<close> as the count of the answer, a number that may
  be missing.
\<close>

datatype error = DuplicateKey string | Rejected string

record 'st storage =
  getEmojis :: "'st \<Rightarrow> string option \<Rightarrow> string option \<Rightarrow> error + emoji list"
  getEmojiBySlug :: "'st \<Rightarrow> string \<Rightarrow> error + emoji option"
  getEmojiCount :: "'st \<Rightarrow> error + nat"
  createEmojis :: "'st \<Rightarrow> insertEmoji list \<Rightarrow> error + 'st"
  incrementCopyCount :: "'st \<Rightarrow> int \<Rightarrow> error + (int option \<times> 'st)"
  getPageBySlug :: "'st \<Rightarrow> string \<Rightarrow> error + seoPage option"
  getUngeneratedPages :: "'st \<Rightarrow> nat \<Rightarrow> error + seoPage list"
  createPage :: "'st \<Rightarrow> insertSeoPage \<Rightarrow> error + (seoPage \<times> 'st)"
  updatePage :: "'st \<Rightarrow> int \<Rightarrow> pageUpdate \<Rightarrow> error + (seoPage option \<times> 'st)"

text \<open>The calls a route makes on the storage, in order: the trace of its effects.\<close>

datatype call =
    GetEmojis "string option" "string option"
  | GetEmojiBySlug string
  | GetEmojiCount
  | CreateEmojis "insertEmoji list"
  | IncrementCopyCount int
  | GetPageBySlug string
  | GetUngeneratedPages nat
  | CreatePage insertSeoPage
  | UpdatePage int pageUpdate

definition isWrite :: "call \<Rightarrow> bool" where
  "isWrite c =
     (case c of
        CreateEmojis _ \<Rightarrow> True
      | IncrementCopyCount _ \<Rightarrow> True
      | CreatePage _ \<Rightarrow> True
      | UpdatePage _ _ \<Rightarrow> True
      | _ \<Rightarrow> False)"

section \<open>The routes\<close>

text \<open>
  A handler answers with \<^verbatim>\<open>res.status(n).json(body)\<close> (\<^verbatim>\<open>res.json\<close> alone is
  status 200). A handler without \<^verbatim>\<open>try\<close> whose storage call rejects sends nothing:
  the rejection leaves the handler, \<^verbatim>\<open>Unhandled\<close> below. A handler returns its
  answer, the state of the storage after it, and the calls it made.
\<close>

datatype body =
    Message string
  | EmojiBody emoji
  | CopyCount "int option"
  | PageBody "seoPage option"
  | Generated nat

datatype response = Json nat body | Unhandled error

definition status :: "response \<Rightarrow> nat option" where
  "status r = (case r of Json n _ \<Rightarrow> Some n | Unhandled _ \<Rightarrow> None)"

text \<open>\<^verbatim>\<open>GET /api/emojis/:slug\<close>.\<close>

definition get_emojis_slug ::
  "'st storage \<Rightarrow> 'st \<Rightarrow> string \<Rightarrow> response \<times> 'st \<times> call list" where
  "get_emojis_slug storage st slug =
     (case getEmojiBySlug storage st slug of
        Inl e \<Rightarrow> (Unhandled e, st, [GetEmojiBySlug slug])
      | Inr None \<Rightarrow> (Json 404 (Message ''Emoji not found''), st, [GetEmojiBySlug slug])
      | Inr (Some emoji) \<Rightarrow> (Json 200 (EmojiBody emoji), st, [GetEmojiBySlug slug]))"

text \<open>\<^verbatim>\<open>POST /api/emojis/:id/copy\<close>. The argument \<^verbatim>\<open>id'\<close> is
  \<^verbatim>\<open>Number(req.params.id)\<close>, for a parameter that is the numeral of an integer. The
  handler has no \<^verbatim>\<open>try\<close> and no test of the result.\<close>

definition post_emojis_copy ::
  "'st storage \<Rightarrow> 'st \<Rightarrow> int \<Rightarrow> response \<times> 'st \<times> call list" where
  "post_emojis_copy storage st id' =
     (case incrementCopyCount storage st id' of
        Inl e \<Rightarrow> (Unhandled e, st, [IncrementCopyCount id'])
      | Inr (copyCount, st') \<Rightarrow> (Json 200 (CopyCount copyCount), st', [IncrementCopyCount id']))"

text \<open>\<^verbatim>\<open>GET /api/pages/:slug\<close>.\<close>

definition get_pages_slug ::
  "'st storage \<Rightarrow> 'st \<Rightarrow> string \<Rightarrow> response \<times> 'st \<times> call list" where
  "get_pages_slug storage st slug =
     (case getPageBySlug storage st slug of
        Inl e \<Rightarrow> (Unhandled e, st, [GetPageBySlug slug])
      | Inr None \<Rightarrow> (Json 404 (Message ''Page not found''), st, [GetPageBySlug slug])
      | Inr (Some page) \<Rightarrow> (Json 200 (PageBody (Some page)), st, [GetPageBySlug slug]))"

text \<open>\<^verbatim>\<open>PATCH /api/pages/:id\<close>, with the three fields of the request body.\<close>

definition patch_pages_id ::
  "'st storage \<Rightarrow> 'st \<Rightarrow> int \<Rightarrow> string option \<Rightarrow> string option \<Rightarrow> string option
     \<Rightarrow> response \<times> 'st \<times> call list" where
  "patch_pages_id storage st id' title metaDescription content =
     (let upd = \<lparr>set_title = title, set_metaDescription = metaDescription,
                  set_content = content, set_relatedEmojis = None, set_isGenerated = None\<rparr>
      in case updatePage storage st id' upd of
           Inl e \<Rightarrow> (Json 500 (Message ''Failed to update page''), st, [UpdatePage id' upd])
         | Inr (None, st') \<Rightarrow> (Json 404 (Message ''Page not found''), st', [UpdatePage id' upd])
         | Inr (Some updated, st') \<Rightarrow> (Json 200 (PageBody (Some updated)), st', [UpdatePage id' upd]))"

text \<open>
  \<^verbatim>\<open>POST /api/pages/generate\<close>. The argument is the field \<^verbatim>\<open>keyword\<close> of the
  request body, a string as the admin page sends it, \<^const>\<open>None\<close> when the body has
  none; \<^verbatim>\<open>!keyword\<close> holds of a missing and of an empty string. The two records
  that the handler builds for \<^verbatim>\<open>updatePage\<close> and \<^verbatim>\<open>createPage\<close> come first.
\<close>

definition generatedUpdate :: "string \<Rightarrow> emoji list \<Rightarrow> pageUpdate" where
  "generatedUpdate keyword allEmojis =
     (let relatedEmojiChars = map emoji_emoji (take 20 allEmojis);
          content = generateSeoContent keyword allEmojis
      in \<lparr>set_title = None, set_metaDescription = None, set_content = Some content,
          set_relatedEmojis = Some relatedEmojiChars, set_isGenerated = Some True\<rparr>)"

definition generatedPage :: "string \<Rightarrow> emoji list \<Rightarrow> insertSeoPage" where
  "generatedPage keyword allEmojis =
     (let relatedEmojiChars = map emoji_emoji (take 20 allEmojis);
          content = generateSeoContent keyword allEmojis
      in \<lparr>page_slug = keywordSlug keyword,
          page_title =
            joinWith '' '' (map capitalize (splitOn (CHR '' '') keyword)) @ '' - Copy & Paste'',
          page_keyword = keyword,
          page_metaDescription =
            ''Copy and paste '' @ keyword @ '' instantly! Find the best '' @ keyword @
            '' for messages, social media, and more.'',
          page_content = Some content,
          page_relatedEmojis = Some relatedEmojiChars,
          page_isGenerated = True\<rparr>)"

definition post_pages_generate ::
  "'st storage \<Rightarrow> 'st \<Rightarrow> string option \<Rightarrow> response \<times> 'st \<times> call list" where
  "post_pages_generate storage st body_keyword =
     (case body_keyword of
        None \<Rightarrow> (Json 400 (Message ''Keyword is required''), st, [])
      | Some keyword \<Rightarrow>
          if keyword = [] then (Json 400 (Message ''Keyword is required''), st, [])
          else
            (let lookup = GetPageBySlug (keywordSlug keyword);
                 search = GetEmojis (Some (replaceFirst '' emoji'' [] keyword)) None;
                 failed = Json 500 (Message ''Failed to generate page'')
             in case getPageBySlug storage st (keywordSlug keyword) of
                  Inl e \<Rightarrow> (failed, st, [lookup])
                | Inr existingPage \<Rightarrow>
                    if (case existingPage of None \<Rightarrow> False | Some p \<Rightarrow> page_isGenerated p)
                    then (Json 200 (PageBody existingPage), st, [lookup])
                    else
                      (case getEmojis storage st (Some (replaceFirst '' emoji'' [] keyword)) None of
                         Inl e \<Rightarrow> (failed, st, [lookup, search])
                       | Inr allEmojis \<Rightarrow>
                           (case existingPage of
                              Some p \<Rightarrow>
                                (let upd = generatedUpdate keyword allEmojis
                                 in case updatePage storage st (page_id p) upd of
                                      Inl e \<Rightarrow>
                                        (failed, st, [lookup, search, UpdatePage (page_id p) upd])
                                    | Inr (updated, st') \<Rightarrow>
                                        (Json 200 (PageBody updated), st',
                                         [lookup, search, UpdatePage (page_id p) upd]))
                            | None \<Rightarrow>
                                (let new = generatedPage keyword allEmojis
                                 in case createPage storage st new of
                                      Inl e \<Rightarrow> (failed, st, [lookup, search, CreatePage new])
                                    | Inr (page, st') \<Rightarrow>
                                        (Json 201 (PageBody (Some page)), st',
                                         [lookup, search, CreatePage new]))))))"

text \<open>
  \<^verbatim>\<open>POST /api/pages/generate-batch\<close>. The loop over the fetched pages carries the
  counter \<^verbatim>\<open>generated\<close>; a rejection leaves the loop for the \<^verbatim>\<open>catch\<close> of the
  handler, with the updates made so far in the state.
\<close>

fun generateLoop ::
  "'st storage \<Rightarrow> seoPage list \<Rightarrow> 'st \<Rightarrow> nat \<Rightarrow> (error + nat) \<times> 'st \<times> call list" where
  "generateLoop storage [] st generated = (Inr generated, st, [])"
| "generateLoop storage (page # rest) st generated =
     (let search = GetEmojis (Some (replaceFirst '' emoji'' [] (page_keyword page))) None
      in case getEmojis storage st (Some (replaceFirst '' emoji'' [] (page_keyword page))) None of
           Inl e \<Rightarrow> (Inl e, st, [search])
         | Inr allEmojis \<Rightarrow>
             (let upd = generatedUpdate (page_keyword page) allEmojis
              in case updatePage storage st (page_id page) upd of
                   Inl e \<Rightarrow> (Inl e, st, [search, UpdatePage (page_id page) upd])
                 | Inr (updated, st') \<Rightarrow>
                     (case generateLoop storage rest st' (generated + 1) of
                        (r, st'', calls) \<Rightarrow>
                          (r, st'', search # UpdatePage (page_id page) upd # calls))))"

definition post_pages_generate_batch ::
  "'st storage \<Rightarrow> 'st \<Rightarrow> response \<times> 'st \<times> call list" where
  "post_pages_generate_batch storage st =
     (let failed = Json 500 (Message ''Failed to batch generate'')
      in case getUngeneratedPages storage st 5 of
           Inl e \<Rightarrow> (failed, st, [GetUngeneratedPages 5])
         | Inr ungenerated \<Rightarrow>
             (case generateLoop storage ungenerated st 0 of
                (Inl e, st', calls) \<Rightarrow> (failed, st', GetUngeneratedPages 5 # calls)
              | (Inr generated, st', calls) \<Rightarrow>
                  (Json 200 (Generated generated), st', GetUngeneratedPages 5 # calls)))"

section \<open>The seed routine\<close>

text \<open>
  \<^verbatim>\<open>seedDatabase\<close>. The table \<^verbatim>\<open>EMOJI_DATA\<close> and the page stubs
  \<^verbatim>\<open>generateSeoPages(TOP_KEYWORDS)\<close> come from \<^verbatim>\<open>server/seed-emojis\<close>, which is
  not among the source files: they are parameters. The first loop walks the table in
  batches of 50 by its index; a rejection there leaves the routine. The second loop
  catches whatever \<^verbatim>\<open>createPage\<close> throws and goes on with the state it had.
\<close>

function seedEmojis ::
  "'st storage \<Rightarrow> insertEmoji list \<Rightarrow> nat \<Rightarrow> 'st \<Rightarrow> (error + unit) \<times> 'st \<times> call list" where
  "seedEmojis storage EMOJI_DATA i st =
     (if i < length EMOJI_DATA then
        (let batch = take 50 (drop i EMOJI_DATA)
         in case createEmojis storage st batch of
              Inl e \<Rightarrow> (Inl e, st, [CreateEmojis batch])
            | Inr st' \<Rightarrow>
                (case seedEmojis storage EMOJI_DATA (i + 50) st' of
                   (r, st'', calls) \<Rightarrow> (r, st'', CreateEmojis batch # calls)))
      else (Inr (), st, []))"
  by pat_completeness auto
termination
  by (relation "measure (\<lambda>(storage, EMOJI_DATA, i, st). length EMOJI_DATA - i)") auto

declare seedEmojis.simps [simp del]

fun seedPages :: "'st storage \<Rightarrow> insertSeoPage list \<Rightarrow> 'st \<Rightarrow> 'st \<times> call list" where
  "seedPages storage [] st = (st, [])"
| "seedPages storage (page # rest) st =
     (case createPage storage st page of
        Inl e \<Rightarrow>
          (case seedPages storage rest st of
             (st', calls) \<Rightarrow> (st', CreatePage page # calls))
      | Inr (created, st') \<Rightarrow>
          (case seedPages storage rest st' of
             (st'', calls) \<Rightarrow> (st'', CreatePage page # calls)))"

definition seedDatabase ::
  "'st storage \<Rightarrow> insertEmoji list \<Rightarrow> insertSeoPage list \<Rightarrow> 'st
     \<Rightarrow> (error + unit) \<times> 'st \<times> call list" where
  "seedDatabase storage EMOJI_DATA seoPages st =
     (case getEmojiCount storage st of
        Inl e \<Rightarrow> (Inl e, st, [GetEmojiCount])
      | Inr count \<Rightarrow>
          if count > 0 then (Inr (), st, [GetEmojiCount])
          else
            (case seedEmojis storage EMOJI_DATA 0 st of
               (Inl e, st', calls) \<Rightarrow> (Inl e, st', GetEmojiCount # calls)
             | (Inr u, st', calls) \<Rightarrow>
                 (case seedPages storage seoPages st' of
                    (st'', calls') \<Rightarrow> (Inr (), st'', GetEmojiCount # calls @ calls'))))"

section \<open>A storage after the specification\<close>

text \<open>
  The implementation of \<^verbatim>\<open>storage\<close> is not among the source files. The operations
  below follow the words of the specification for the catalog store and the page store,
  over two lists in insertion order.
\<close>

record store =
  store_emojis :: "emoji list"
  store_pages :: "seoPage list"

text \<open>\<^verbatim>\<open>s.includes(pat)\<close>: \<^verbatim>\<open>pat\<close> occurs in \<^verbatim>\<open>s\<close>.\<close>

fun includesStr :: "string \<Rightarrow> string \<Rightarrow> bool" where
  "includesStr [] pat = (pat = [])"
| "includesStr (c # cs) pat = (take (length pat) (c # cs) = pat \<or> includesStr cs pat)"

text \<open>Modelled from the spec: the free-text search is a "case-insensitive substring
  match against name/keywords".\<close>

definition matchesSearch :: "string \<Rightarrow> emoji \<Rightarrow> bool" where
  "matchesSearch search e =
     (includesStr (toLowerCase (emoji_name e)) (toLowerCase search) \<or>
      list_ex (\<lambda>k. includesStr (toLowerCase k) (toLowerCase search)) (emoji_keywords e))"

text \<open>Modelled from the spec: "List emojis optionally filtered by free-text search
  (case-insensitive substring match against name/keywords) and/or exact category
  match." The function \<^verbatim>\<open>storage.getEmojis\<close> is missing from the sources.\<close>

definition mem_getEmojis :: "store \<Rightarrow> string option \<Rightarrow> string option \<Rightarrow> error + emoji list" where
  "mem_getEmojis st search category =
     Inr (filter
            (\<lambda>e. (case search of None \<Rightarrow> True | Some q \<Rightarrow> matchesSearch q e) \<and>
                 (case category of None \<Rightarrow> True | Some c \<Rightarrow> emoji_category e = c))
            (store_emojis st))"

text \<open>Modelled from the spec: the catalog store "exposes ... slug lookup"; the slug of
  an emoji is unique. The function \<^verbatim>\<open>storage.getEmojiBySlug\<close> is missing from the
  sources.\<close>

definition mem_getEmojiBySlug :: "store \<Rightarrow> string \<Rightarrow> error + emoji option" where
  "mem_getEmojiBySlug st slug = Inr (find (\<lambda>e. emoji_slug e = slug) (store_emojis st))"

text \<open>Modelled from the spec: the seed routine is "guarded by a count check", the
  number of emoji records. The function \<^verbatim>\<open>storage.getEmojiCount\<close> is missing from the
  sources.\<close>

definition mem_getEmojiCount :: "store \<Rightarrow> error + nat" where
  "mem_getEmojiCount st = Inr (length (store_emojis st))"

text \<open>Modelled from the spec: an id is unique; a new record gets an id above every id in
  use.\<close>

definition nextId :: "int list \<Rightarrow> int" where
  "nextId ids = foldr max ids 0 + 1"

text \<open>Modelled from the spec: an emoji is "created at seed time", with a unique id and a
  copy counter that copy events increment, so one that starts at zero. The function
  \<^verbatim>\<open>storage.createEmojis\<close> is missing from the sources.\<close>

fun insertEmojis :: "emoji list \<Rightarrow> insertEmoji list \<Rightarrow> emoji list" where
  "insertEmojis es [] = es"
| "insertEmojis es (x # xs) =
     insertEmojis
       (es @ [\<lparr>emoji_emoji = emoji_emoji x, emoji_name = emoji_name x,
                emoji_slug = emoji_slug x, emoji_category = emoji_category x,
                emoji_subcategory = emoji_subcategory x,
                emoji_description = emoji_description x,
                emoji_keywords = emoji_keywords x,
                emoji_id = nextId (map emoji_id es), emoji_copyCount = 0\<rparr>])
       xs"

definition mem_createEmojis :: "store \<Rightarrow> insertEmoji list \<Rightarrow> error + store" where
  "mem_createEmojis st batch = Inr (st\<lparr>store_emojis := insertEmojis (store_emojis st) batch\<rparr>)"

text \<open>Modelled from the spec: "Increment copy count for a given id; no-op / not-found
  signaled if id is absent", and "incrementing a known id by 1 raises its stored count by
  exactly 1; incrementing an unknown id leaves the store unchanged and signals
  not-found". The function \<^verbatim>\<open>storage.incrementCopyCount\<close> is missing from the sources;
  the signal is the missing count.\<close>

definition mem_incrementCopyCount :: "store \<Rightarrow> int \<Rightarrow> error + (int option \<times> store)" where
  "mem_incrementCopyCount st id' =
     (case find (\<lambda>e. emoji_id e = id') (store_emojis st) of
        None \<Rightarrow> Inr (None, st)
      | Some e \<Rightarrow>
          Inr (Some (emoji_copyCount e + 1),
               st\<lparr>store_emojis :=
                    map (\<lambda>x. if emoji_id x = id'
                              then x\<lparr>emoji_copyCount := emoji_copyCount x + 1\<rparr> else x)
                      (store_emojis st)\<rparr>))"

text \<open>Modelled from the spec: the page store "exposes ... slug lookup". The function
  \<^verbatim>\<open>storage.getPageBySlug\<close> is missing from the sources.\<close>

definition mem_getPageBySlug :: "store \<Rightarrow> string \<Rightarrow> error + seoPage option" where
  "mem_getPageBySlug st slug = Inr (find (\<lambda>p. page_slug p = slug) (store_pages st))"

text \<open>Modelled from the spec: "fetches up to limit ... pages with generated = false".
  The function \<^verbatim>\<open>storage.getUngeneratedPages\<close> is missing from the sources.\<close>

definition mem_getUngeneratedPages :: "store \<Rightarrow> nat \<Rightarrow> error + seoPage list" where
  "mem_getUngeneratedPages st limit =
     Inr (take limit (filter (\<lambda>p. \<not> page_isGenerated p) (store_pages st)))"

text \<open>The stored record of an inserted page: its fields and an id.\<close>

definition withId :: "insertSeoPage \<Rightarrow> int \<Rightarrow> seoPage" where
  "withId page i =
     \<lparr>page_slug = page_slug page, page_title = page_title page,
      page_keyword = page_keyword page,
      page_metaDescription = page_metaDescription page,
      page_content = page_content page,
      page_relatedEmojis = page_relatedEmojis page,
      page_isGenerated = page_isGenerated page,
      page_id = i\<rparr>"

text \<open>Modelled from the spec: a page has a unique id and a unique slug, so the creation
  of a page whose slug is taken fails; it is the seed routine that ignores the failure.
  The function \<^verbatim>\<open>storage.createPage\<close> is missing from the sources.\<close>

definition mem_createPage :: "store \<Rightarrow> insertSeoPage \<Rightarrow> error + (seoPage \<times> store)" where
  "mem_createPage st page =
     (if list_ex (\<lambda>p. page_slug p = page_slug page) (store_pages st)
      then Inl (DuplicateKey (page_slug page))
      else
        (let created = withId page (nextId (map page_id (store_pages st)))
         in Inr (created, st\<lparr>store_pages := store_pages st @ [created]\<rparr>)))"

text \<open>Modelled from the spec: a page is "mutated when content is (re)generated or
  manually edited"; the fields given replace the stored ones, the others stay.\<close>

definition applyUpdate :: "pageUpdate \<Rightarrow> seoPage \<Rightarrow> seoPage" where
  "applyUpdate upd p =
     p\<lparr>page_title := (case set_title upd of None \<Rightarrow> page_title p | Some v \<Rightarrow> v),
       page_metaDescription :=
         (case set_metaDescription upd of None \<Rightarrow> page_metaDescription p | Some v \<Rightarrow> v),
       page_content := (case set_content upd of None \<Rightarrow> page_content p | Some v \<Rightarrow> Some v),
       page_relatedEmojis :=
         (case set_relatedEmojis upd of None \<Rightarrow> page_relatedEmojis p | Some v \<Rightarrow> Some v),
       page_isGenerated :=
         (case set_isGenerated upd of None \<Rightarrow> page_isGenerated p | Some v \<Rightarrow> v)\<rparr>"

text \<open>Modelled from the spec: the page store "exposes ... update", by id; the routes
  read an undefined result as "Page not found". The function \<^verbatim>\<open>storage.updatePage\<close> is
  missing from the sources.\<close>

definition mem_updatePage :: "store \<Rightarrow> int \<Rightarrow> pageUpdate \<Rightarrow> error + (seoPage option \<times> store)" where
  "mem_updatePage st id' upd =
     (case find (\<lambda>p. page_id p = id') (store_pages st) of
        None \<Rightarrow> Inr (None, st)
      | Some p \<Rightarrow>
          Inr (Some (applyUpdate upd p),
               st\<lparr>store_pages :=
                    map (\<lambda>q. if page_id q = id' then applyUpdate upd q else q)
                      (store_pages st)\<rparr>))"

definition memStorage :: "store storage" where
  "memStorage =
     \<lparr>getEmojis = mem_getEmojis, getEmojiBySlug = mem_getEmojiBySlug,
      getEmojiCount = mem_getEmojiCount, createEmojis = mem_createEmojis,
      incrementCopyCount = mem_incrementCopyCount, getPageBySlug = mem_getPageBySlug,
      getUngeneratedPages = mem_getUngeneratedPages, createPage = mem_createPage,
      updatePage = mem_updatePage\<rparr>"

section \<open>Sample data\<close>

text \<open>A small catalog and page store on which the theorems below are evaluated. The
  glyphs are written as ASCII stand-ins.\<close>

definition redHeart :: emoji where
  "redHeart =
     \<lparr>emoji_emoji = ''<3'', emoji_name = ''Red Heart'', emoji_slug = ''red-heart'',
      emoji_category = ''Smileys & Emotion'', emoji_subcategory = Some ''heart'',
      emoji_description = Some ''A classic red heart'',
      emoji_keywords = [''heart'', ''love''], emoji_id = 1, emoji_copyCount = 7\<rparr>"

definition twoHearts :: emoji where
  "twoHearts =
     \<lparr>emoji_emoji = ''<3<3'', emoji_name = ''Two Hearts'', emoji_slug = ''two-hearts'',
      emoji_category = ''Smileys & Emotion'', emoji_subcategory = Some ''heart'',
      emoji_description = None,
      emoji_keywords = [''hearts'', ''love''], emoji_id = 2, emoji_copyCount = 0\<rparr>"

definition fire :: emoji where
  "fire =
     \<lparr>emoji_emoji = ''^^^'', emoji_name = ''Fire'', emoji_slug = ''fire'',
      emoji_category = ''Travel & Places'', emoji_subcategory = None,
      emoji_description = Some [],
      emoji_keywords = [''flame'', ''hot''], emoji_id = 3, emoji_copyCount = 2\<rparr>"

definition firePage :: seoPage where
  "firePage =
     \<lparr>page_slug = ''fire-emoji'', page_title = ''Fire Emoji - Copy & Paste'',
      page_keyword = ''fire emoji'', page_metaDescription = ''Copy and paste fire emoji'',
      page_content = Some ''# Fire Emoji'', page_relatedEmojis = Some [''^^^''],
      page_isGenerated = True, page_id = 1\<rparr>"

definition heartStub :: seoPage where
  "heartStub =
     \<lparr>page_slug = ''heart-emoji'', page_title = ''Heart Emoji - Copy & Paste'',
      page_keyword = ''heart emoji'', page_metaDescription = ''Copy and paste heart emoji'',
      page_content = None, page_relatedEmojis = None,
      page_isGenerated = False, page_id = 2\<rparr>"

definition sampleStore :: store where
  "sampleStore =
     \<lparr>store_emojis = [redHeart, twoHearts, fire], store_pages = [firePage, heartStub]\<rparr>"

definition stubFor :: "string \<Rightarrow> string \<Rightarrow> insertSeoPage" where
  "stubFor slug keyword =
     \<lparr>page_slug = slug, page_title = keyword, page_keyword = keyword,
      page_metaDescription = keyword, page_content = None, page_relatedEmojis = None,
      page_isGenerated = False\<rparr>"

text \<open>The page of a response, when it carries one.\<close>

definition responsePage :: "response \<Rightarrow> seoPage option" where
  "responsePage r = (case r of Json n (PageBody p) \<Rightarrow> p | _ \<Rightarrow> None)"

section \<open>Expected results\<close>

text \<open>What generation makes of a stored page: the three generated fields are set from
  the emojis of the catalog that match the keyword without its first \<^verbatim>\<open>" emoji"\<close>;
  every other field stays.\<close>

definition markGenerated :: "emoji list \<Rightarrow> seoPage \<Rightarrow> seoPage" where
  "markGenerated catalog p =
     (let allEmojis = filter (matchesSearch (replaceFirst '' emoji'' [] (page_keyword p))) catalog
      in p\<lparr>page_content := Some (generateSeoContent (page_keyword p) allEmojis),
           page_relatedEmojis := Some (map emoji_emoji (take 20 allEmojis)),
           page_isGenerated := True\<rparr>)"

text \<open>The search term as the specification words it: the keyword "minus a trailing
  emoji suffix", that is, without \<^verbatim>\<open>" emoji"\<close> at its end and unchanged when it does
  not end so.\<close>

definition withoutTrailingEmojiSuffix :: "string \<Rightarrow> string" where
  "withoutTrailingEmojiSuffix keyword =
     (if length keyword \<ge> 6 \<and> drop (length keyword - 6) keyword = '' emoji''
      then take (length keyword - 6) keyword else keyword)"

section \<open>The slug is a normal form\<close>

lemma dash_not_alnum: "\<not> isLowerAlnum (CHR ''-'')"
  by (simp add: isLowerAlnum_def)

lemma toLowerCaseChar_fixed:
  "isLowerAlnum c \<or> c = CHR ''-'' \<Longrightarrow> toLowerCaseChar c = c"
  by (auto simp: toLowerCaseChar_def isLowerAlnum_def Let_def)

lemma slugShaped_chars: "slugShaped s \<Longrightarrow> c \<in> set s \<Longrightarrow> isLowerAlnum c \<or> c = CHR ''-''"
  by (induction s rule: slugShaped.induct) auto

lemma toLowerCase_slugShaped: "slugShaped s \<Longrightarrow> toLowerCase s = s"
  unfolding toLowerCase_def
  by (rule map_idI) (auto dest: slugShaped_chars intro: toLowerCaseChar_fixed)

lemma slugShaped_tl: "slugShaped (c # cs) \<Longrightarrow> slugShaped cs"
  by (cases cs) auto

lemma replaceNonAlnumRuns_shaped: "slugShaped (replaceNonAlnumRuns s)"
proof (induction s rule: replaceNonAlnumRuns.induct)
  case 1
  show ?case by simp
next
  case (2 c cs)
  show ?case
  proof (cases "isLowerAlnum c")
    case True
    with 2 show ?thesis
      by (cases "replaceNonAlnumRuns cs") auto
  next
    case False
    let ?rest = "dropWhile (\<lambda>d. \<not> isLowerAlnum d) cs"
    have shaped: "slugShaped (replaceNonAlnumRuns ?rest)" using 2 False by simp
    have unfold: "replaceNonAlnumRuns (c # cs) = CHR ''-'' # replaceNonAlnumRuns ?rest"
      using False by simp
    show ?thesis
    proof (cases ?rest)
      case Nil
      show ?thesis unfolding unfold Nil by simp
    next
      case (Cons d ds)
      then have "isLowerAlnum d"
        using hd_dropWhile[of "\<lambda>d. \<not> isLowerAlnum d" cs] by auto
      with shaped show ?thesis unfolding unfold Cons by simp
    qed
  qed
qed

lemma replaceNonAlnumRuns_fixed: "slugShaped s \<Longrightarrow> replaceNonAlnumRuns s = s"
proof (induction s rule: slugShaped.induct)
  case 1
  show ?case by simp
next
  case (2 c)
  then show ?case by auto
next
  case (3 c d cs)
  then show ?case by (auto simp: dash_not_alnum)
qed

lemma slugShaped_butlast: "slugShaped s \<Longrightarrow> slugShaped (butlast s)"
  by (induction s rule: slugShaped.induct) (auto split: if_splits)

lemma stripLeadingDash_shaped: "slugShaped s \<Longrightarrow> slugShaped (stripLeadingDash s)"
  by (auto simp: stripLeadingDash_def dest: slugShaped_tl split: list.splits)

lemma stripTrailingDash_shaped: "slugShaped s \<Longrightarrow> slugShaped (stripTrailingDash s)"
  by (simp add: stripTrailingDash_def slugShaped_butlast)

lemma stripEdgeDashes_shaped: "slugShaped s \<Longrightarrow> slugShaped (stripEdgeDashes s)"
  by (simp add: stripEdgeDashes_def stripLeadingDash_shaped stripTrailingDash_shaped)

lemma slugShaped_no_leading_dash:
  "slugShaped s \<Longrightarrow> stripLeadingDash s = c # cs \<Longrightarrow> c \<noteq> CHR ''-''"
  by (cases s rule: slugShaped.cases)
     (auto simp: stripLeadingDash_def dash_not_alnum split: if_splits)

lemma slugShaped_last_butlast:
  "slugShaped s \<Longrightarrow> s \<noteq> [] \<Longrightarrow> last s = CHR ''-'' \<Longrightarrow> butlast s \<noteq> [] \<Longrightarrow>
   last (butlast s) \<noteq> CHR ''-''"
  by (induction s rule: slugShaped.induct) (auto simp: dash_not_alnum split: if_splits)

lemma stripTrailingDash_twice:
  "slugShaped s \<Longrightarrow> stripTrailingDash (stripTrailingDash s) = stripTrailingDash s"
  using slugShaped_last_butlast[of s] by (auto simp: stripTrailingDash_def)

lemma stripTrailingDash_head:
  "stripTrailingDash s = c # cs \<Longrightarrow> \<exists>cs'. s = c # cs'"
  by (cases s) (auto simp: stripTrailingDash_def split: if_splits)

lemma stripEdgeDashes_twice:
  assumes "slugShaped s"
  shows "stripEdgeDashes (stripEdgeDashes s) = stripEdgeDashes s"
proof -
  let ?t = "stripLeadingDash s"
  have t: "slugShaped ?t" using assms by (rule stripLeadingDash_shaped)
  have "stripLeadingDash (stripTrailingDash ?t) = stripTrailingDash ?t"
  proof (cases "stripTrailingDash ?t")
    case Nil
    then show ?thesis by (simp add: stripLeadingDash_def)
  next
    case (Cons c cs)
    then obtain cs' where "?t = c # cs'" using stripTrailingDash_head by blast
    then have "c \<noteq> CHR ''-''" using slugShaped_no_leading_dash[OF assms] by simp
    with Cons show ?thesis by (simp add: stripLeadingDash_def)
  qed
  then show ?thesis
    using stripTrailingDash_twice[OF t] by (simp add: stripEdgeDashes_def)
qed

lemma keywordSlug_shaped: "slugShaped (keywordSlug keyword)"
  by (simp add: keywordSlug_def stripEdgeDashes_shaped replaceNonAlnumRuns_shaped)

lemma keywordSlug_edges:
  "keywordSlug keyword = c # cs \<Longrightarrow> c \<noteq> CHR ''-'' \<and> last (c # cs) \<noteq> CHR ''-''"
proof -
  assume slug: "keywordSlug keyword = c # cs"
  let ?r = "replaceNonAlnumRuns (toLowerCase keyword)"
  have r: "slugShaped ?r" by (rule replaceNonAlnumRuns_shaped)
  have twice: "stripEdgeDashes (c # cs) = c # cs"
    using stripEdgeDashes_twice[OF r] slug by (simp add: keywordSlug_def)
  have shaped: "slugShaped (c # cs)" using keywordSlug_shaped[of keyword] slug by simp
  have "c \<noteq> CHR ''-''"
  proof
    assume dash: "c = CHR ''-''"
    then have "stripEdgeDashes (c # cs) = stripTrailingDash cs"
      by (simp add: stripEdgeDashes_def stripLeadingDash_def)
    then have "length (stripEdgeDashes (c # cs)) \<le> length cs"
      by (simp add: stripTrailingDash_def)
    with twice show False by simp
  qed
  moreover have "last (c # cs) \<noteq> CHR ''-''"
  proof
    assume dash: "last (c # cs) = CHR ''-''"
    have "stripLeadingDash (c # cs) = c # cs"
      using \<open>c \<noteq> CHR ''-''\<close> by (simp add: stripLeadingDash_def)
    then have "stripEdgeDashes (c # cs) = butlast (c # cs)"
      using dash by (simp add: stripEdgeDashes_def stripTrailingDash_def)
    then have "length (stripEdgeDashes (c # cs)) < length (c # cs)"
      by simp
    with twice show False by simp
  qed
  ultimately show ?thesis by simp
qed

text \<open>
  \<^bold>\<open>Claim C4.\<close> The slug is a function of the keyword alone, and it is idempotent:
  the normalization of a string that is already a slug gives the same string. The
  lemmas above give the shape of every slug: lower-case letters, digits and single
  dashes, with no dash at either end.
\<close>

theorem keywordSlug_idempotent: "keywordSlug (keywordSlug keyword) = keywordSlug keyword"
proof -
  let ?r = "replaceNonAlnumRuns (toLowerCase keyword)"
  have r: "slugShaped ?r" by (rule replaceNonAlnumRuns_shaped)
  have s: "slugShaped (stripEdgeDashes ?r)" using r by (rule stripEdgeDashes_shaped)
  have "keywordSlug (stripEdgeDashes ?r) = stripEdgeDashes (stripEdgeDashes ?r)"
    using s by (simp add: keywordSlug_def toLowerCase_slugShaped replaceNonAlnumRuns_fixed)
  then show ?thesis
    using stripEdgeDashes_twice[OF r] by (simp add: keywordSlug_def)
qed

section \<open>The content generator reads ten emojis\<close>

lemma popularItems_take:
  "popularItems cleanKeyword (take 10 relatedEmojis) = popularItems cleanKeyword relatedEmojis"
  by (simp add: popularItems_def)

lemma emojiSamples_take: "emojiSamples (take 10 relatedEmojis) = emojiSamples relatedEmojis"
  by (simp add: emojiSamples_def)

lemma take_nonempty: "(0 < length (take 10 relatedEmojis)) = (0 < length relatedEmojis)"
  by (cases relatedEmojis) simp_all

lemma generateSeoContent_take:
  "generateSeoContent keyword (take 10 relatedEmojis) = generateSeoContent keyword relatedEmojis"
  unfolding generateSeoContent_def popularItems_take emojiSamples_take take_nonempty ..

lemma generateSeoContent_part_000_take:
  "generateSeoContent_part_000 keyword (take 10 relatedEmojis) =
   generateSeoContent_part_000 keyword relatedEmojis"
  unfolding generateSeoContent_part_000_def popularItems_take emojiSamples_take take_nonempty ..

text \<open>
  \<^bold>\<open>Claim C10.\<close> The document lists at most the first 10 related emojis: the list under
  "Popular" has one item for each of the first 10 and no more, the samples of the sentence
  "Related emojis include" are built from the first 10, and the whole document is the one
  generated from the first 10 alone, however many emojis are passed (the page record
  stores up to 20 glyphs). This holds of both templates.
\<close>

theorem content_lists_first_ten:
  "length (popularItems cleanKeyword relatedEmojis) = min 10 (length relatedEmojis)
   \<and> popularItems cleanKeyword relatedEmojis = popularItems cleanKeyword (take 10 relatedEmojis)
   \<and> emojiSamples relatedEmojis = emojiSamples (take 10 relatedEmojis)
   \<and> generateSeoContent keyword relatedEmojis = generateSeoContent keyword (take 10 relatedEmojis)
   \<and> generateSeoContent_part_000 keyword relatedEmojis =
       generateSeoContent_part_000 keyword (take 10 relatedEmojis)"
  by (simp add: generateSeoContent_take generateSeoContent_part_000_take popularItems_take
      emojiSamples_take)
     (simp add: popularItems_def min.commute)

lemma popularItems_fields:
  "popularItems cleanKeyword relatedEmojis =
     map (\<lambda>(glyph, name, description).
            ''- '' @ glyph @ '' **'' @ name @ ''** - '' @
            orElse description (''A popular emoji for expressing '' @ cleanKeyword))
       (map readFields (take 10 relatedEmojis))"
  by (simp add: popularItems_def readFields_def comp_def)

lemma emojiSamples_fields:
  "emojiSamples relatedEmojis =
     joinWith '', ''
       (map (\<lambda>(glyph, name, description). glyph @ '' '' @ name)
          (map readFields (take 10 relatedEmojis)))"
  by (simp add: emojiSamples_def readFields_def comp_def)

lemma nonempty_fields:
  assumes "map readFields (take 10 relatedEmojis1) = map readFields (take 10 relatedEmojis2)"
  shows "(0 < length relatedEmojis1) = (0 < length relatedEmojis2)"
proof -
  have "length (take 10 relatedEmojis1) = length (take 10 relatedEmojis2)"
    using assms by (rule map_eq_imp_length_eq)
  then show ?thesis
    by (cases relatedEmojis1; cases relatedEmojis2) simp_all
qed

text \<open>
  \<^bold>\<open>Claim C7.\<close> The content generator is deterministic, and the document depends on
  its two arguments only through what the template reads of them: two invocations with
  equal keywords whose emoji lists agree, on their first 10 entries, in glyph, name and
  description give equal documents, for both templates, whatever the ids, slugs,
  categories, keywords and copy counters of the emojis and whatever follows the tenth.
  Equal keywords and equal lists are the special case of the claim. A generator that
  read anything else of its arguments would not satisfy this.
\<close>

theorem generateSeoContent_deterministic:
  assumes "keyword1 = keyword2"
    and "map readFields (take 10 relatedEmojis1) = map readFields (take 10 relatedEmojis2)"
  shows "generateSeoContent keyword1 relatedEmojis1 = generateSeoContent keyword2 relatedEmojis2
         \<and> generateSeoContent_part_000 keyword1 relatedEmojis1 =
           generateSeoContent_part_000 keyword2 relatedEmojis2"
  unfolding generateSeoContent_def generateSeoContent_part_000_def
    popularItems_fields emojiSamples_fields
    assms(1) assms(2) nonempty_fields[OF assms(2)]
  by simp

theorem generateSeoContent_deterministic_witness:
  "generateSeoContent ''fire emoji'' [fire, redHeart, twoHearts] =
     generateSeoContent ''fire emoji''
       [fire\<lparr>emoji_id := 99, emoji_copyCount := 1000\<rparr>,
        redHeart\<lparr>emoji_slug := ''heart'', emoji_keywords := []\<rparr>,
        twoHearts\<lparr>emoji_category := ''Symbols'', emoji_subcategory := None\<rparr>]
   \<and> generateSeoContent_part_000 ''fire emoji'' [fire, redHeart, twoHearts] =
     generateSeoContent_part_000 ''fire emoji''
       [fire\<lparr>emoji_id := 99, emoji_copyCount := 1000\<rparr>,
        redHeart\<lparr>emoji_slug := ''heart'', emoji_keywords := []\<rparr>,
        twoHearts\<lparr>emoji_category := ''Symbols'', emoji_subcategory := None\<rparr>]"
  by (rule generateSeoContent_deterministic) (simp_all add: readFields_def)

section \<open>The routes, over any storage\<close>

lemma slug_Fire: "keywordSlug ''Fire Emoji'' = ''fire-emoji''"
  by code_simp

text \<open>
  \<^bold>\<open>Claim C6.\<close> \<^verbatim>\<open>POST /api/pages/generate\<close> with no keyword, or with an empty one,
  answers 400 before any other step: the storage is not called at all (no lookup, no
  search, no write) and its state is the one before the request.
\<close>

theorem generate_requires_keyword:
  "post_pages_generate storage st None = (Json 400 (Message ''Keyword is required''), st, [])
   \<and> post_pages_generate storage st (Some []) =
       (Json 400 (Message ''Keyword is required''), st, [])"
  by (simp add: post_pages_generate_def)

text \<open>
  \<^bold>\<open>Claim C1.\<close> Generation is idempotent once a page is marked generated: for a
  keyword (one that passes the check of the request body) whose slug the storage resolves
  to a page with \<^verbatim>\<open>isGenerated = true\<close>, the route answers 200 with that very page, its
  only call on the storage is the lookup, so no update and no create, the state of the
  storage is unchanged, and a second request gives the same answer.
\<close>

theorem generate_idempotent_once_generated:
  assumes "keyword \<noteq> []"
    and "getPageBySlug storage st (keywordSlug keyword) = Inr (Some existingPage)"
    and "page_isGenerated existingPage"
  shows "post_pages_generate storage st (Some keyword) =
           (Json 200 (PageBody (Some existingPage)), st, [GetPageBySlug (keywordSlug keyword)])
         \<and> filter isWrite (snd (snd (post_pages_generate storage st (Some keyword)))) = []
         \<and> post_pages_generate storage
             (fst (snd (post_pages_generate storage st (Some keyword)))) (Some keyword) =
           post_pages_generate storage st (Some keyword)"
  using assms by (simp add: post_pages_generate_def isWrite_def)

theorem generate_idempotent_once_generated_witness:
  "post_pages_generate memStorage sampleStore (Some ''Fire Emoji'') =
     (Json 200 (PageBody (Some firePage)), sampleStore, [GetPageBySlug ''fire-emoji''])"
proof -
  have a: "''Fire Emoji'' \<noteq> []" by simp
  have b: "getPageBySlug memStorage sampleStore (keywordSlug ''Fire Emoji'') = Inr (Some firePage)"
    by (simp add: slug_Fire memStorage_def mem_getPageBySlug_def sampleStore_def firePage_def)
  have c: "page_isGenerated firePage" by (simp add: firePage_def)
  from generate_idempotent_once_generated[OF a b c] show ?thesis
    by (simp add: slug_Fire)
qed

subsection \<open>The copy counter\<close>

text \<open>The lookups beside the route of the copy counter answer 404 for what they do not
  find.\<close>

lemma get_emojis_slug_missing:
  "getEmojiBySlug storage st slug = Inr None \<Longrightarrow>
   status (fst (get_emojis_slug storage st slug)) = Some 404"
  by (simp add: get_emojis_slug_def status_def)

lemma patch_pages_id_missing:
  "updatePage storage st id'
     \<lparr>set_title = title, set_metaDescription = metaDescription, set_content = content,
      set_relatedEmojis = None, set_isGenerated = None\<rparr> = Inr (None, st') \<Longrightarrow>
   status (fst (patch_pages_id storage st id' title metaDescription content)) = Some 404"
  by (simp add: patch_pages_id_def status_def)

text \<open>In the storage after the specification, the counter of a known id goes up by
  exactly one and nothing else changes; an unknown id changes nothing and returns no
  count.\<close>

lemma find_by_distinct_key:
  "distinct (map f xs) \<Longrightarrow> x \<in> set xs \<Longrightarrow> find (\<lambda>q. f q = f x) xs = Some x"
  by (induction xs) (auto simp: image_iff)

lemma map_by_distinct_key:
  assumes "distinct (map f xs)" and "x \<in> set xs"
  shows "map (\<lambda>q. if f q = f x then h q else q) xs = map (\<lambda>q. if q = x then h x else q) xs"
proof (rule map_cong[OF refl])
  fix q assume "q \<in> set xs"
  with assms have "f q = f x \<longleftrightarrow> q = x"
    by (auto simp: distinct_map dest: inj_onD)
  then show "(if f q = f x then h q else q) = (if q = x then h x else q)" by auto
qed

lemma mem_incrementCopyCount_known:
  assumes "distinct (map emoji_id (store_emojis st))" and "e \<in> set (store_emojis st)"
  shows "incrementCopyCount memStorage st (emoji_id e) =
     Inr (Some (emoji_copyCount e + 1),
          st\<lparr>store_emojis :=
               map (\<lambda>x. if x = e then e\<lparr>emoji_copyCount := emoji_copyCount e + 1\<rparr> else x)
                 (store_emojis st)\<rparr>)"
  using find_by_distinct_key[OF assms]
    map_by_distinct_key[OF assms, of "\<lambda>x. x\<lparr>emoji_copyCount := emoji_copyCount x + 1\<rparr>"]
  by (simp add: memStorage_def mem_incrementCopyCount_def)

lemma mem_incrementCopyCount_unknown:
  assumes "id' \<notin> emoji_id ` set (store_emojis st)"
  shows "incrementCopyCount memStorage st id' = Inr (None, st)"
proof -
  have "find (\<lambda>e. emoji_id e = id') (store_emojis st) = None"
    using assms by (auto simp: find_None_iff)
  then show ?thesis by (simp add: memStorage_def mem_incrementCopyCount_def)
qed

text \<open>
  \<^bold>\<open>Claim C2.\<close> The store does what the claim says of it, but the route does not pass
  the outcome on as a not-found: whatever the storage is and returns, the status of its
  answer is never 404, and 200 whenever the storage returns. For the id 999, which the
  sample catalog does not hold, \<^verbatim>\<open>POST /api/emojis/999/copy\<close> answers with status 200
  and a body without a count, and leaves the store unchanged, where
  \<^verbatim>\<open>GET /api/emojis/:slug\<close> answers 404 for a slug the catalog does not hold.
\<close>

theorem copy_of_unknown_id_answers_200:
  "status (fst (post_emojis_copy storage st id')) \<noteq> Some 404
   \<and> post_emojis_copy memStorage sampleStore 999 =
     (Json 200 (CopyCount None), sampleStore, [IncrementCopyCount 999])
   \<and> get_emojis_slug memStorage sampleStore ''no-such-emoji'' =
     (Json 404 (Message ''Emoji not found''), sampleStore, [GetEmojiBySlug ''no-such-emoji''])"
proof -
  have "status (fst (post_emojis_copy storage st id')) \<noteq> Some 404"
    by (simp add: post_emojis_copy_def status_def split: sum.splits prod.splits)
  moreover have "post_emojis_copy memStorage sampleStore 999 =
      (Json 200 (CopyCount None), sampleStore, [IncrementCopyCount 999])"
    by (simp add: post_emojis_copy_def memStorage_def mem_incrementCopyCount_def
        sampleStore_def redHeart_def twoHearts_def fire_def)
  moreover have "get_emojis_slug memStorage sampleStore ''no-such-emoji'' =
      (Json 404 (Message ''Emoji not found''), sampleStore, [GetEmojiBySlug ''no-such-emoji''])"
    by (simp add: get_emojis_slug_def memStorage_def mem_getEmojiBySlug_def
        sampleStore_def redHeart_def twoHearts_def fire_def)
  ultimately show ?thesis by simp
qed

subsection \<open>The seed routine\<close>

text \<open>
  \<^bold>\<open>Claim C9.\<close> When the count of emojis is above zero, \<^verbatim>\<open>seedDatabase\<close> returns
  at once: its only call on the storage is the count, so no emoji and no page stub is
  inserted, and the state of the storage (catalog and pages) is the one it found.
\<close>

theorem seed_skipped_when_populated:
  assumes "getEmojiCount storage st = Inr count" and "count > 0"
  shows "seedDatabase storage EMOJI_DATA seoPages st = (Inr (), st, [GetEmojiCount])"
  using assms by (simp add: seedDatabase_def)

theorem seed_skipped_when_populated_witness:
  "seedDatabase memStorage [] [stubFor ''smile-emoji'' ''smile emoji''] sampleStore =
     (Inr (), sampleStore, [GetEmojiCount])"
proof -
  have a: "getEmojiCount memStorage sampleStore = Inr 3"
    by (simp add: memStorage_def mem_getEmojiCount_def sampleStore_def)
  show ?thesis by (rule seed_skipped_when_populated[OF a]) simp
qed

text \<open>
  \<^bold>\<open>Claim C8.\<close> During seeding, a page stub whose creation fails (as it does for a
  slug that the page store already holds) is skipped: the loop goes on with the remaining
  stubs from the state it had, as if the stub were not in the list. And no failure of
  \<^verbatim>\<open>createPage\<close> leaves the routine: an error that \<^verbatim>\<open>seedDatabase\<close> returns is one
  of the count or of an emoji batch.
\<close>

theorem seed_ignores_failed_create:
  assumes "createPage storage st page = Inl e"
  shows "seedPages storage (page # rest) st =
           (fst (seedPages storage rest st), CreatePage page # snd (seedPages storage rest st))
         \<and> (fst (seedDatabase storage EMOJI_DATA seoPages st0) = Inl e' \<longrightarrow>
              getEmojiCount storage st0 = Inl e' \<or>
              fst (seedEmojis storage EMOJI_DATA 0 st0) = Inl e')"
  using assms
  by (auto simp: split_beta seedDatabase_def split: sum.splits if_splits prod.splits)

theorem seed_ignores_failed_create_witness:
  "fst (seedPages memStorage
          [stubFor ''fire-emoji'' ''fire emoji'', stubFor ''smile-emoji'' ''smile emoji'']
          sampleStore) =
     fst (seedPages memStorage [stubFor ''smile-emoji'' ''smile emoji''] sampleStore)
   \<and> map page_slug (store_pages (fst (seedPages memStorage
          [stubFor ''fire-emoji'' ''fire emoji'', stubFor ''smile-emoji'' ''smile emoji'']
          sampleStore))) = [''fire-emoji'', ''heart-emoji'', ''smile-emoji'']"
proof -
  have dup: "createPage memStorage sampleStore (stubFor ''fire-emoji'' ''fire emoji'') =
      Inl (DuplicateKey ''fire-emoji'')"
    by (simp add: memStorage_def mem_createPage_def sampleStore_def firePage_def stubFor_def)
  have rest: "map page_slug (store_pages (fst (seedPages memStorage
      [stubFor ''smile-emoji'' ''smile emoji''] sampleStore))) =
      [''fire-emoji'', ''heart-emoji'', ''smile-emoji'']"
    by (simp add: memStorage_def mem_createPage_def sampleStore_def firePage_def heartStub_def
        stubFor_def withId_def Let_def)
  from seed_ignores_failed_create[OF dup, of "[stubFor ''smile-emoji'' ''smile emoji'']"] rest
  show ?thesis by simp
qed

section \<open>The routes, over the storage after the specification\<close>

lemma mem_getEmojis_search:
  "getEmojis memStorage st (Some s) None = Inr (filter (matchesSearch s) (store_emojis st))"
  by (simp add: memStorage_def mem_getEmojis_def)

lemma applyUpdate_generated:
  "applyUpdate (generatedUpdate (page_keyword p)
      (filter (matchesSearch (replaceFirst '' emoji'' [] (page_keyword p))) catalog)) p =
   markGenerated catalog p"
  by (simp add: applyUpdate_def generatedUpdate_def markGenerated_def Let_def)

lemma mem_updatePage_stored:
  assumes "distinct (map page_id (store_pages st))" and "p \<in> set (store_pages st)"
  shows "updatePage memStorage st (page_id p) upd =
     Inr (Some (applyUpdate upd p),
          st\<lparr>store_pages := map (\<lambda>q. if q = p then applyUpdate upd p else q) (store_pages st)\<rparr>)"
  using find_by_distinct_key[OF assms] map_by_distinct_key[OF assms, of "applyUpdate upd"]
  by (simp add: memStorage_def mem_updatePage_def)

lemma markGenerated_id [simp]: "page_id (markGenerated catalog p) = page_id p"
  by (simp add: markGenerated_def Let_def)

lemma markGenerated_isGenerated [simp]: "page_isGenerated (markGenerated catalog p)"
  by (simp add: markGenerated_def Let_def)

lemma generateLoop_mem:
  assumes "distinct (map page_id (store_pages st))"
    and "set ps \<subseteq> set (store_pages st)"
    and "distinct ps"
    and "\<forall>p \<in> set ps. \<not> page_isGenerated p"
  shows "\<exists>calls. generateLoop memStorage ps st generated =
           (Inr (generated + length ps),
            st\<lparr>store_pages :=
                 map (\<lambda>q. if q \<in> set ps then markGenerated (store_emojis st) q else q)
                   (store_pages st)\<rparr>,
            calls)
         \<and> length (filter isWrite calls) = length ps"
  using assms
proof (induction ps arbitrary: st generated)
  case Nil
  then show ?case by simp
next
  case (Cons p ps)
  let ?G = "markGenerated (store_emojis st)"
  let ?st1 = "st\<lparr>store_pages := map (\<lambda>q. if q = p then ?G p else q) (store_pages st)\<rparr>"
  let ?upd = "generatedUpdate (page_keyword p)
      (filter (matchesSearch (replaceFirst '' emoji'' [] (page_keyword p))) (store_emojis st))"
  have p_in: "p \<in> set (store_pages st)" using Cons.prems by simp
  have upd: "updatePage memStorage st (page_id p) ?upd = Inr (Some (?G p), ?st1)"
    using mem_updatePage_stored[OF Cons.prems(1) p_in, of ?upd]
    by (simp add: applyUpdate_generated)
  have ids: "map page_id (store_pages ?st1) = map page_id (store_pages st)"
    by (simp add: comp_def if_distrib[of page_id] cong: if_cong)
  have d1: "distinct (map page_id (store_pages ?st1))"
    using Cons.prems(1) unfolding ids .
  have sub1: "set ps \<subseteq> set (store_pages ?st1)"
  proof
    fix r assume r: "r \<in> set ps"
    then have "r \<noteq> p" and "r \<in> set (store_pages st)" using Cons.prems by auto
    then show "r \<in> set (store_pages ?st1)" by (auto simp: image_iff)
  qed
  have d2: "distinct ps" and ung: "\<forall>r \<in> set ps. \<not> page_isGenerated r"
    using Cons.prems by auto
  from Cons.IH[OF d1 sub1 d2 ung, of "generated + 1"]
  obtain calls where loop: "generateLoop memStorage ps ?st1 (generated + 1) =
      (Inr (generated + 1 + length ps),
       ?st1\<lparr>store_pages :=
            map (\<lambda>q. if q \<in> set ps then markGenerated (store_emojis ?st1) q else q)
              (store_pages ?st1)\<rparr>, calls)"
    and writes: "length (filter isWrite calls) = length ps"
    by blast
  have Gp: "?G p \<notin> set ps" using ung by auto
  have pages: "map (\<lambda>q. if q \<in> set ps then ?G q else q)
        (map (\<lambda>q. if q = p then ?G p else q) (store_pages st)) =
      map (\<lambda>q. if q \<in> set (p # ps) then ?G q else q) (store_pages st)"
    using Gp by (auto simp: comp_def)
  have e1: "store_emojis ?st1 = store_emojis st" by simp
  have s1: "store_pages ?st1 = map (\<lambda>q. if q = p then ?G p else q) (store_pages st)" by simp
  have final: "?st1\<lparr>store_pages :=
            map (\<lambda>q. if q \<in> set ps then markGenerated (store_emojis ?st1) q else q)
              (store_pages ?st1)\<rparr> =
      st\<lparr>store_pages := map (\<lambda>q. if q \<in> set (p # ps) then ?G q else q) (store_pages st)\<rparr>"
    unfolding e1 s1 pages by simp
  have loop2: "generateLoop memStorage ps ?st1 (generated + 1) =
      (Inr (generated + length (p # ps)),
       st\<lparr>store_pages := map (\<lambda>q. if q \<in> set (p # ps) then ?G q else q) (store_pages st)\<rparr>,
       calls)"
    by (rule trans[OF loop]) (simp only: final, simp)
  have search: "getEmojis memStorage st
      (Some (replaceFirst '' emoji'' [] (page_keyword p))) None =
      Inr (filter (matchesSearch (replaceFirst '' emoji'' [] (page_keyword p))) (store_emojis st))"
    by (rule mem_getEmojis_search)
  have "generateLoop memStorage (p # ps) st generated =
      (Inr (generated + length (p # ps)),
       st\<lparr>store_pages := map (\<lambda>q. if q \<in> set (p # ps) then ?G q else q) (store_pages st)\<rparr>,
       GetEmojis (Some (replaceFirst '' emoji'' [] (page_keyword p))) None
         # UpdatePage (page_id p) ?upd # calls)"
    unfolding generateLoop.simps Let_def search sum.case upd prod.case loop2 ..
  moreover have "length (filter isWrite
      (GetEmojis (Some (replaceFirst '' emoji'' [] (page_keyword p))) None
         # UpdatePage (page_id p) ?upd # calls)) = length (p # ps)"
    using writes by (simp add: isWrite_def)
  ultimately show ?case by blast
qed

lemma length_filter_member:
  assumes "distinct xs" and "distinct us" and "set us \<subseteq> set xs"
  shows "length (filter (\<lambda>q. q \<in> set us) xs) = length us"
proof -
  have "length (filter (\<lambda>q. q \<in> set us) xs) = card ({q. q \<in> set us} \<inter> set xs)"
    using assms(1) by (rule distinct_length_filter)
  also have "{q. q \<in> set us} \<inter> set xs = set us" using assms(3) by auto
  also have "card (set us) = length us" using assms(2) by (rule distinct_card)
  finally show ?thesis .
qed

lemma count_generated_after:
  assumes "distinct xs" and "distinct us" and "set us \<subseteq> set xs"
    and "\<forall>u \<in> set us. \<not> page_isGenerated u"
  shows "length (filter page_isGenerated
           (map (\<lambda>q. if q \<in> set us then markGenerated catalog q else q) xs)) =
         length (filter page_isGenerated xs) + length us"
proof -
  have "length (filter page_isGenerated
           (map (\<lambda>q. if q \<in> set us then markGenerated catalog q else q) xs)) =
        length (filter (\<lambda>q. page_isGenerated q \<or> q \<in> set us) xs)"
    by (simp add: filter_map comp_def if_distrib[of page_isGenerated] cong: if_cong)
       (rule arg_cong[where f=length], rule filter_cong, auto)
  also have "\<dots> = length (filter page_isGenerated xs) + length (filter (\<lambda>q. q \<in> set us) xs)"
    using assms(4) by (induction xs) auto
  finally show ?thesis using length_filter_member[OF assms(1-3)] by simp
qed

lemma sample_distinct: "distinct (map page_id (store_pages sampleStore))"
  by (simp add: sampleStore_def firePage_def heartStub_def)

lemma distinct_pages: "distinct (map page_id ps) \<Longrightarrow> distinct ps"
  by (simp add: distinct_map)

text \<open>
  \<^bold>\<open>Claim C3.\<close> \<^verbatim>\<open>POST /api/pages/generate-batch\<close> over the storage after the
  specification, whose page ids are distinct: the pages fetched are the first 5 that are
  not generated, so at most 5; the answer is 200 with \<^verbatim>\<open>generated\<close> their number;
  after the call exactly these pages are replaced by their generated versions and every
  other page and the catalog are as before, so the number of generated pages has grown by
  \<^verbatim>\<open>generated\<close>; and the route made one write for each.
\<close>

theorem generate_batch_at_most_five:
  assumes "distinct (map page_id (store_pages st))"
  shows "let ungenerated = take 5 (filter (\<lambda>p. \<not> page_isGenerated p) (store_pages st));
             result = post_pages_generate_batch memStorage st;
             st' = fst (snd result)
         in fst result = Json 200 (Generated (length ungenerated))
            \<and> length ungenerated \<le> 5
            \<and> store_pages st' =
                map (\<lambda>q. if q \<in> set ungenerated then markGenerated (store_emojis st) q else q)
                  (store_pages st)
            \<and> store_emojis st' = store_emojis st
            \<and> length (filter page_isGenerated (store_pages st')) =
                length (filter page_isGenerated (store_pages st)) + length ungenerated
            \<and> length (filter isWrite (snd (snd result))) = length ungenerated"
proof -
  let ?ungenerated = "take 5 (filter (\<lambda>p. \<not> page_isGenerated p) (store_pages st))"
  have d: "distinct (store_pages st)" using assms by (rule distinct_pages)
  have sub: "set ?ungenerated \<subseteq> set (store_pages st)"
    using set_take_subset[of 5 "filter (\<lambda>p. \<not> page_isGenerated p) (store_pages st)"] by auto
  have du: "distinct ?ungenerated" using d by simp
  have ung: "\<forall>p \<in> set ?ungenerated. \<not> page_isGenerated p"
    using set_take_subset[of 5 "filter (\<lambda>p. \<not> page_isGenerated p) (store_pages st)"] by auto
  obtain calls where loop: "generateLoop memStorage ?ungenerated st 0 =
      (Inr (0 + length ?ungenerated),
       st\<lparr>store_pages :=
            map (\<lambda>q. if q \<in> set ?ungenerated then markGenerated (store_emojis st) q else q)
              (store_pages st)\<rparr>, calls)"
    and writes: "length (filter isWrite calls) = length ?ungenerated"
    using generateLoop_mem[OF assms sub du ung, of 0] by blast
  have fetch: "getUngeneratedPages memStorage st 5 = Inr ?ungenerated"
    by (simp add: memStorage_def mem_getUngeneratedPages_def)
  have result: "post_pages_generate_batch memStorage st =
      (Json 200 (Generated (length ?ungenerated)),
       st\<lparr>store_pages :=
            map (\<lambda>q. if q \<in> set ?ungenerated then markGenerated (store_emojis st) q else q)
              (store_pages st)\<rparr>,
       GetUngeneratedPages 5 # calls)"
    unfolding post_pages_generate_batch_def Let_def fetch sum.case loop prod.case by simp
  have count: "length (filter page_isGenerated
       (map (\<lambda>q. if q \<in> set ?ungenerated then markGenerated (store_emojis st) q else q)
          (store_pages st))) =
     length (filter page_isGenerated (store_pages st)) + length ?ungenerated"
    using d du sub ung by (rule count_generated_after)
  show ?thesis
    unfolding Let_def result using count writes by (simp add: isWrite_def)
qed

theorem generate_batch_at_most_five_witness:
  "fst (post_pages_generate_batch memStorage sampleStore) = Json 200 (Generated 1)
   \<and> store_pages (fst (snd (post_pages_generate_batch memStorage sampleStore))) =
       [firePage, markGenerated [redHeart, twoHearts, fire] heartStub]
   \<and> length (filter isWrite (snd (snd (post_pages_generate_batch memStorage sampleStore)))) = 1"
proof -
  have u: "take 5 (filter (\<lambda>p. \<not> page_isGenerated p) (store_pages sampleStore)) = [heartStub]"
    by (simp add: sampleStore_def firePage_def heartStub_def)
  have ne: "firePage \<noteq> heartStub"
    by (simp add: firePage_def heartStub_def)
  from generate_batch_at_most_five[OF sample_distinct] show ?thesis
    unfolding Let_def u using ne by (simp add: sampleStore_def)
qed

subsection \<open>Generation for one keyword\<close>

lemma find_Some_holds: "find P xs = Some p \<Longrightarrow> P p"
  by (induction xs) (auto split: if_splits)

lemma find_Some_member: "find P xs = Some p \<Longrightarrow> p \<in> set xs"
  by (induction xs) (auto split: if_splits)

lemma find_replace:
  "find P xs = Some p \<Longrightarrow> P p' \<Longrightarrow> find P (map (\<lambda>q. if q = p then p' else q) xs) = Some p'"
proof (induction xs)
  case Nil
  then show ?case by simp
next
  case (Cons x xs)
  from Cons.prems(1) have Pp: "P p" by (rule find_Some_holds)
  show ?case
  proof (cases "P x")
    case True
    with Cons.prems show ?thesis by simp
  next
    case False
    with Pp have "x \<noteq> p" by auto
    with False Cons show ?thesis by simp
  qed
qed

lemma find_None_list_ex: "find P xs = None \<Longrightarrow> \<not> list_ex P xs"
  by (simp add: find_None_iff list_ex_iff)

lemma find_snoc: "find P xs = None \<Longrightarrow> P c \<Longrightarrow> find P (xs @ [c]) = Some c"
  by (induction xs) (auto split: if_splits)

lemma post_pages_generate_mem_update:
  assumes kw: "keyword \<noteq> []"
    and ids: "distinct (map page_id (store_pages st))"
    and lookup: "getPageBySlug memStorage st (keywordSlug keyword) = Inr (Some p)"
    and fresh: "\<not> page_isGenerated p"
  shows "post_pages_generate memStorage st (Some keyword) =
     (let allEmojis = filter (matchesSearch (replaceFirst '' emoji'' [] keyword)) (store_emojis st);
          upd = generatedUpdate keyword allEmojis
      in (Json 200 (PageBody (Some (applyUpdate upd p))),
          st\<lparr>store_pages := map (\<lambda>q. if q = p then applyUpdate upd p else q) (store_pages st)\<rparr>,
          [GetPageBySlug (keywordSlug keyword),
           GetEmojis (Some (replaceFirst '' emoji'' [] keyword)) None,
           UpdatePage (page_id p) upd]))"
proof -
  have found: "find (\<lambda>q. page_slug q = keywordSlug keyword) (store_pages st) = Some p"
    using lookup by (simp add: memStorage_def mem_getPageBySlug_def)
  then have p_in: "p \<in> set (store_pages st)"
    by (rule find_Some_member)
  show ?thesis
    unfolding post_pages_generate_def Let_def
    using kw fresh
    by (simp add: lookup mem_getEmojis_search mem_updatePage_stored[OF ids p_in])
qed

lemma post_pages_generate_mem_create:
  assumes kw: "keyword \<noteq> []"
    and lookup: "getPageBySlug memStorage st (keywordSlug keyword) = Inr None"
  shows "post_pages_generate memStorage st (Some keyword) =
     (let allEmojis = filter (matchesSearch (replaceFirst '' emoji'' [] keyword)) (store_emojis st);
          new = generatedPage keyword allEmojis;
          page = withId new (nextId (map page_id (store_pages st)))
      in (Json 201 (PageBody (Some page)),
          st\<lparr>store_pages := store_pages st @ [page]\<rparr>,
          [GetPageBySlug (keywordSlug keyword),
           GetEmojis (Some (replaceFirst '' emoji'' [] keyword)) None,
           CreatePage new]))"
proof -
  have "find (\<lambda>q. page_slug q = keywordSlug keyword) (store_pages st) = None"
    using lookup by (simp add: memStorage_def mem_getPageBySlug_def)
  then have free: "\<not> list_ex (\<lambda>q. page_slug q = keywordSlug keyword) (store_pages st)"
    by (rule find_None_list_ex)
  have slug: "page_slug (generatedPage keyword allEmojis) = keywordSlug keyword" for allEmojis
    by (simp add: generatedPage_def Let_def)
  have create: "createPage memStorage st (generatedPage keyword allEmojis) =
      Inr (withId (generatedPage keyword allEmojis) (nextId (map page_id (store_pages st))),
           st\<lparr>store_pages := store_pages st @
             [withId (generatedPage keyword allEmojis) (nextId (map page_id (store_pages st)))]\<rparr>)"
    for allEmojis
    using free by (simp add: memStorage_def mem_createPage_def slug Let_def)
  show ?thesis
    unfolding post_pages_generate_def Let_def
    using kw by (simp add: lookup mem_getEmojis_search create)
qed

lemma sample_hearts_term:
  "replaceFirst '' emoji'' [] ''heart emojis'' = ''hearts''"
  by code_simp

lemma slug_hearts:
  "keywordSlug ''heart emojis'' = ''heart-emojis''"
  by code_simp

lemma sample_hearts_matches:
  "filter (matchesSearch ''hearts'') (store_emojis sampleStore) = [twoHearts]"
  by code_simp

lemma sample_claimed_term:
  "withoutTrailingEmojiSuffix ''heart emojis'' = ''heart emojis''"
  by code_simp

lemma sample_claimed_matches:
  "filter (matchesSearch ''heart emojis'') (store_emojis sampleStore) = []"
  by code_simp

lemma sample_heart_term:
  "replaceFirst '' emoji'' [] ''heart emoji'' = ''heart''"
  by code_simp

lemma sample_heart_matches:
  "filter (matchesSearch ''heart'') (store_emojis sampleStore) = [redHeart, twoHearts]"
  by code_simp


text \<open>
  \<^bold>\<open>Claim C5, as amended.\<close> For a keyword that passes the check of the request body
  and whose slug resolves to no page or to a page that is not generated, the route
  fetches the emojis that match the keyword with its first \<^verbatim>\<open>" emoji"\<close> removed,
  wherever it stands; the related glyphs are those of the first 20 matches and the
  content is the document generated from the keyword and the matches; with these and
  \<^verbatim>\<open>isGenerated = true\<close> it updates the page found, by its id, and answers 200 with
  the result, or, when there is no page, creates one under the slug and answers 201. A
  write that fails gives the answer 500 and leaves the state as it was.
\<close>

theorem generate_for_keyword:
  assumes kw: "keyword \<noteq> []"
    and lookup: "getPageBySlug storage st (keywordSlug keyword) = Inr existingPage"
    and fresh: "case existingPage of None \<Rightarrow> True | Some p \<Rightarrow> \<not> page_isGenerated p"
    and found: "getEmojis storage st (Some (replaceFirst '' emoji'' [] keyword)) None = Inr allEmojis"
  shows
    "let content = generateSeoContent keyword allEmojis;
         relatedEmojiChars = map emoji_emoji (take 20 allEmojis);
         result = post_pages_generate storage st (Some keyword);
         calls = snd (snd result)
     in take 2 calls =
          [GetPageBySlug (keywordSlug keyword),
           GetEmojis (Some (replaceFirst '' emoji'' [] keyword)) None]
        \<and> (case existingPage of
              Some p \<Rightarrow>
                (let upd = \<lparr>set_title = None, set_metaDescription = None,
                             set_content = Some content,
                             set_relatedEmojis = Some relatedEmojiChars,
                             set_isGenerated = Some True\<rparr>
                 in drop 2 calls = [UpdatePage (page_id p) upd]
                    \<and> (case updatePage storage st (page_id p) upd of
                          Inr (updated, st') \<Rightarrow>
                            fst result = Json 200 (PageBody updated) \<and> fst (snd result) = st'
                        | Inl e \<Rightarrow>
                            fst result = Json 500 (Message ''Failed to generate page'')
                            \<and> fst (snd result) = st))
            | None \<Rightarrow>
                (let new = \<lparr>page_slug = keywordSlug keyword,
                             page_title =
                               joinWith '' '' (map capitalize (splitOn (CHR '' '') keyword)) @
                               '' - Copy & Paste'',
                             page_keyword = keyword,
                             page_metaDescription =
                               ''Copy and paste '' @ keyword @ '' instantly! Find the best '' @
                               keyword @ '' for messages, social media, and more.'',
                             page_content = Some content,
                             page_relatedEmojis = Some relatedEmojiChars,
                             page_isGenerated = True\<rparr>
                 in drop 2 calls = [CreatePage new]
                    \<and> (case createPage storage st new of
                          Inr (page, st') \<Rightarrow>
                            fst result = Json 201 (PageBody (Some page)) \<and> fst (snd result) = st'
                        | Inl e \<Rightarrow>
                            fst result = Json 500 (Message ''Failed to generate page'')
                            \<and> fst (snd result) = st)))"
proof (cases existingPage)
  case None
  show ?thesis
    unfolding post_pages_generate_def Let_def
    using kw None
    by (simp add: lookup found generatedPage_def Let_def split: sum.splits prod.splits)
next
  case (Some p)
  with fresh have "\<not> page_isGenerated p" by simp
  then show ?thesis
    unfolding post_pages_generate_def Let_def
    using kw Some
    by (simp add: lookup found generatedUpdate_def Let_def split: sum.splits prod.splits)
qed

lemma slug_heart: "keywordSlug ''heart emoji'' = ''heart-emoji''"
  by code_simp

lemma sample_heart_lookup:
  "getPageBySlug memStorage sampleStore (keywordSlug ''heart emoji'') = Inr (Some heartStub)"
  by (simp add: slug_heart memStorage_def mem_getPageBySlug_def sampleStore_def firePage_def
      heartStub_def)

lemma sample_heart_search:
  "getEmojis memStorage sampleStore (Some (replaceFirst '' emoji'' [] ''heart emoji'')) None =
     Inr [redHeart, twoHearts]"
  by (simp add: mem_getEmojis_search sample_heart_term sample_heart_matches)

theorem generate_for_keyword_witness:
  "map_option page_relatedEmojis
     (responsePage (fst (post_pages_generate memStorage sampleStore (Some ''heart emoji'')))) =
     Some (Some [''<3'', ''<3<3''])
   \<and> map_option page_content
     (responsePage (fst (post_pages_generate memStorage sampleStore (Some ''heart emoji'')))) =
     Some (Some (generateSeoContent ''heart emoji'' [redHeart, twoHearts]))
   \<and> map page_isGenerated
     (store_pages (fst (snd (post_pages_generate memStorage sampleStore (Some ''heart emoji''))))) =
     [True, True]"
proof -
  have a: "''heart emoji'' \<noteq> []" by simp
  have c: "case Some heartStub of None \<Rightarrow> True | Some p \<Rightarrow> \<not> page_isGenerated p"
    by (simp add: heartStub_def)
  have ne: "firePage \<noteq> heartStub" by (simp add: firePage_def heartStub_def)
  have upd: "updatePage memStorage sampleStore (page_id heartStub) u =
      Inr (Some (applyUpdate u heartStub),
           sampleStore\<lparr>store_pages := [firePage, applyUpdate u heartStub]\<rparr>)" for u
    using mem_updatePage_stored[OF sample_distinct, of heartStub u] ne
    by (simp add: sampleStore_def)
  from generate_for_keyword[OF a sample_heart_lookup c sample_heart_search]
  show ?thesis
    unfolding Let_def option.case upd sum.case prod.case
    by (simp add: responsePage_def applyUpdate_def redHeart_def twoHearts_def firePage_def)
qed

lemma sample_hearts_lookup:
  "getPageBySlug memStorage sampleStore (keywordSlug ''heart emojis'') = Inr None"
  by (simp add: slug_hearts memStorage_def mem_getPageBySlug_def sampleStore_def firePage_def
      heartStub_def)

text \<open>
  \<^bold>\<open>Claim C5 as stated fails.\<close> The keyword \<^verbatim>\<open>heart emojis\<close> has no trailing
  \<^verbatim>\<open>" emoji"\<close>, so the search term of the claim is the keyword itself, which matches
  nothing in the sample catalog. The route searches for \<^verbatim>\<open>hearts\<close> and stores the
  glyph of the match on the new page.
\<close>

theorem generate_search_term_counterexample:
  "snd (snd (post_pages_generate memStorage sampleStore (Some ''heart emojis''))) ! 1 \<noteq>
       GetEmojis (Some (withoutTrailingEmojiSuffix ''heart emojis'')) None
   \<and> snd (snd (post_pages_generate memStorage sampleStore (Some ''heart emojis''))) ! 1 =
       GetEmojis (Some ''hearts'') None
   \<and> withoutTrailingEmojiSuffix ''heart emojis'' = ''heart emojis''
   \<and> getEmojis memStorage sampleStore (Some (withoutTrailingEmojiSuffix ''heart emojis'')) None =
       Inr []
   \<and> map_option page_relatedEmojis
       (responsePage (fst (post_pages_generate memStorage sampleStore (Some ''heart emojis'')))) =
       Some (Some [''<3<3''])"
proof -
  have a: "''heart emojis'' \<noteq> []" by simp
  have claimed: "getEmojis memStorage sampleStore
      (Some (withoutTrailingEmojiSuffix ''heart emojis'')) None = Inr []"
    by (simp add: sample_claimed_term mem_getEmojis_search sample_claimed_matches)
  show ?thesis
    unfolding post_pages_generate_mem_create[OF a sample_hearts_lookup] Let_def
      sample_hearts_term sample_hearts_matches
    using claimed
    by (simp add: sample_claimed_term responsePage_def withId_def generatedPage_def twoHearts_def)
qed

subsection \<open>A second request for the same keyword\<close>

text \<open>Over the storage after the specification the route always answers with a page
  that is generated and that the slug of the keyword resolves to afterwards. A second
  request for the keyword therefore answers 200 with the same page and writes nothing.\<close>

lemma post_pages_generate_found:
  "keyword \<noteq> [] \<Longrightarrow> getPageBySlug storage st (keywordSlug keyword) = Inr (Some p) \<Longrightarrow>
   page_isGenerated p \<Longrightarrow>
   post_pages_generate storage st (Some keyword) =
     (Json 200 (PageBody (Some p)), st, [GetPageBySlug (keywordSlug keyword)])"
  by (simp add: post_pages_generate_def)

lemma applyUpdate_generated_fields:
  "page_slug (applyUpdate (generatedUpdate keyword allEmojis) p) = page_slug p
   \<and> page_isGenerated (applyUpdate (generatedUpdate keyword allEmojis) p)
   \<and> page_content (applyUpdate (generatedUpdate keyword allEmojis) p) =
       Some (generateSeoContent keyword allEmojis)
   \<and> page_relatedEmojis (applyUpdate (generatedUpdate keyword allEmojis) p) =
       Some (map emoji_emoji (take 20 allEmojis))"
  by (simp add: applyUpdate_def generatedUpdate_def Let_def)

lemma generatedPage_fields:
  "page_slug (withId (generatedPage keyword allEmojis) i) = keywordSlug keyword
   \<and> page_isGenerated (withId (generatedPage keyword allEmojis) i)
   \<and> page_content (withId (generatedPage keyword allEmojis) i) =
       Some (generateSeoContent keyword allEmojis)
   \<and> page_relatedEmojis (withId (generatedPage keyword allEmojis) i) =
       Some (map emoji_emoji (take 20 allEmojis))"
  by (simp add: withId_def generatedPage_def Let_def)

lemma post_pages_generate_mem_persists:
  assumes kw: "keyword \<noteq> []"
    and ids: "distinct (map page_id (store_pages st))"
  shows "\<exists>page code calls.
           post_pages_generate memStorage st (Some keyword) =
             (Json code (PageBody (Some page)), fst (snd (post_pages_generate memStorage st (Some keyword))), calls)
           \<and> page_isGenerated page
           \<and> getPageBySlug memStorage (fst (snd (post_pages_generate memStorage st (Some keyword))))
               (keywordSlug keyword) = Inr (Some page)"
proof -
  let ?slug = "keywordSlug keyword"
  let ?all = "filter (matchesSearch (replaceFirst '' emoji'' [] keyword)) (store_emojis st)"
  have lookup: "getPageBySlug memStorage s ?slug =
      Inr (find (\<lambda>q. page_slug q = ?slug) (store_pages s))" for s
    by (simp add: memStorage_def mem_getPageBySlug_def)
  show ?thesis
  proof (cases "find (\<lambda>q. page_slug q = ?slug) (store_pages st)")
    case None
    let ?page = "withId (generatedPage keyword ?all) (nextId (map page_id (store_pages st)))"
    have l: "getPageBySlug memStorage st ?slug = Inr None" using None by (simp add: lookup)
    have r: "post_pages_generate memStorage st (Some keyword) =
        (Json 201 (PageBody (Some ?page)), st\<lparr>store_pages := store_pages st @ [?page]\<rparr>,
         [GetPageBySlug ?slug, GetEmojis (Some (replaceFirst '' emoji'' [] keyword)) None,
          CreatePage (generatedPage keyword ?all)])"
      using post_pages_generate_mem_create[OF kw l] by (simp add: Let_def)
    have "find (\<lambda>q. page_slug q = ?slug) (store_pages st @ [?page]) = Some ?page"
      using None by (rule find_snoc) (simp add: generatedPage_fields)
    then show ?thesis
      unfolding r by (simp add: lookup generatedPage_fields)
  next
    case (Some p)
    have l: "getPageBySlug memStorage st ?slug = Inr (Some p)" using Some by (simp add: lookup)
    show ?thesis
    proof (cases "page_isGenerated p")
      case True
      show ?thesis
        unfolding post_pages_generate_found[OF kw l True] using l True by simp
    next
      case False
      let ?page = "applyUpdate (generatedUpdate keyword ?all) p"
      have r: "post_pages_generate memStorage st (Some keyword) =
          (Json 200 (PageBody (Some ?page)),
           st\<lparr>store_pages := map (\<lambda>q. if q = p then ?page else q) (store_pages st)\<rparr>,
           [GetPageBySlug ?slug, GetEmojis (Some (replaceFirst '' emoji'' [] keyword)) None,
            UpdatePage (page_id p) (generatedUpdate keyword ?all)])"
        using post_pages_generate_mem_update[OF kw ids l False] by (simp add: Let_def)
      have "page_slug p = ?slug" using Some by (auto dest: find_Some_holds)
      then have "find (\<lambda>q. page_slug q = ?slug)
          (map (\<lambda>q. if q = p then ?page else q) (store_pages st)) = Some ?page"
        using Some by (intro find_replace) (simp_all add: applyUpdate_generated_fields)
      then show ?thesis
        unfolding r by (simp add: lookup applyUpdate_generated_fields)
    qed
  qed
qed

lemma post_pages_generate_mem_twice:
  assumes kw: "keyword \<noteq> []"
    and ids: "distinct (map page_id (store_pages st))"
  shows "let first = post_pages_generate memStorage st (Some keyword);
             second = post_pages_generate memStorage (fst (snd first)) (Some keyword)
         in fst second = Json 200 (PageBody (responsePage (fst first)))
            \<and> fst (snd second) = fst (snd first)
            \<and> filter isWrite (snd (snd second)) = []"
proof -
  let ?st1 = "fst (snd (post_pages_generate memStorage st (Some keyword)))"
  obtain page code calls where
    first: "post_pages_generate memStorage st (Some keyword) =
        (Json code (PageBody (Some page)), ?st1, calls)"
    and gen: "page_isGenerated page"
    and stored: "getPageBySlug memStorage ?st1 (keywordSlug keyword) = Inr (Some page)"
    using post_pages_generate_mem_persists[OF kw ids] by blast
  have second: "post_pages_generate memStorage ?st1 (Some keyword) =
      (Json 200 (PageBody (Some page)), ?st1, [GetPageBySlug (keywordSlug keyword)])"
    using kw stored gen by (rule post_pages_generate_found)
  have page: "responsePage (fst (post_pages_generate memStorage st (Some keyword))) = Some page"
    by (subst first) (simp add: responsePage_def)
  show ?thesis
    unfolding Let_def second page by (simp add: isWrite_def)
qed

subsection \<open>Seeding the storage after the specification\<close>

text \<open>The emoji batches together insert the whole table, the page loop leaves the
  catalog alone and ends with a page for the slug of every stub, and a second run of the
  routine after one that had emojis to insert does nothing.\<close>

lemma insertEmojis_append:
  "insertEmojis es (xs @ ys) = insertEmojis (insertEmojis es xs) ys"
  by (induction xs arbitrary: es) simp_all

lemma length_insertEmojis: "length (insertEmojis es xs) = length es + length xs"
  by (induction xs arbitrary: es) simp_all

lemma seedEmojis_mem:
  "\<exists>calls. seedEmojis memStorage EMOJI_DATA i st =
     (Inr (), st\<lparr>store_emojis := insertEmojis (store_emojis st) (drop i EMOJI_DATA)\<rparr>, calls)"
proof (induction "memStorage :: store storage" EMOJI_DATA i st rule: seedEmojis.induct)
  case (1 EMOJI_DATA i st)
  show ?case
  proof (cases "i < length EMOJI_DATA")
    case False
    then show ?thesis by (simp add: seedEmojis.simps)
  next
    case True
    let ?batch = "take 50 (drop i EMOJI_DATA)"
    let ?st' = "st\<lparr>store_emojis := insertEmojis (store_emojis st) ?batch\<rparr>"
    have create: "createEmojis memStorage st ?batch = Inr ?st'"
      by (simp add: memStorage_def mem_createEmojis_def)
    from 1[OF True refl create] obtain calls where
      rest: "seedEmojis memStorage EMOJI_DATA (i + 50) ?st' =
        (Inr (), ?st'\<lparr>store_emojis :=
           insertEmojis (store_emojis ?st') (drop (i + 50) EMOJI_DATA)\<rparr>, calls)"
      by blast
    have "insertEmojis (insertEmojis (store_emojis st) ?batch) (drop (i + 50) EMOJI_DATA) =
        insertEmojis (store_emojis st) (?batch @ drop 50 (drop i EMOJI_DATA))"
      by (simp add: insertEmojis_append add.commute)
    then have all: "insertEmojis (insertEmojis (store_emojis st) ?batch) (drop (i + 50) EMOJI_DATA) =
        insertEmojis (store_emojis st) (drop i EMOJI_DATA)"
      by (simp only: append_take_drop_id)
    have "seedEmojis memStorage EMOJI_DATA i st =
        (Inr (), st\<lparr>store_emojis := insertEmojis (store_emojis st) (drop i EMOJI_DATA)\<rparr>,
         CreateEmojis ?batch # calls)"
      using True create rest all by (subst seedEmojis.simps) (simp add: Let_def)
    then show ?thesis by blast
  qed
qed

lemma seedPages_mem_emojis:
  "store_emojis (fst (seedPages memStorage stubs st)) = store_emojis st"
proof (induction stubs arbitrary: st)
  case Nil
  show ?case by simp
next
  case (Cons page rest)
  show ?case
  proof (cases "list_ex (\<lambda>p. page_slug p = page_slug page) (store_pages st)")
    case True
    then have "createPage memStorage st page = Inl (DuplicateKey (page_slug page))"
      by (simp add: memStorage_def mem_createPage_def)
    then show ?thesis using Cons.IH[of st] by (simp add: split_beta)
  next
    case False
    let ?created = "withId page (nextId (map page_id (store_pages st)))"
    let ?st' = "st\<lparr>store_pages := store_pages st @ [?created]\<rparr>"
    from False have "createPage memStorage st page = Inr (?created, ?st')"
      by (simp add: memStorage_def mem_createPage_def Let_def)
    then show ?thesis using Cons.IH[of ?st'] by (simp add: split_beta)
  qed
qed

lemma seedDatabase_mem_second_run:
  assumes "EMOJI_DATA \<noteq> []"
  shows "seedDatabase memStorage EMOJI_DATA seoPages
           (fst (snd (seedDatabase memStorage EMOJI_DATA seoPages st))) =
         (Inr (), fst (snd (seedDatabase memStorage EMOJI_DATA seoPages st)), [GetEmojiCount])"
proof -
  let ?st1 = "fst (snd (seedDatabase memStorage EMOJI_DATA seoPages st))"
  have count: "getEmojiCount memStorage s = Inr (length (store_emojis s))" for s
    by (simp add: memStorage_def mem_getEmojiCount_def)
  have "0 < length (store_emojis ?st1)"
  proof (cases "store_emojis st = []")
    case False
    then show ?thesis by (simp add: seedDatabase_def count)
  next
    case True
    obtain calls where seeded: "seedEmojis memStorage EMOJI_DATA 0 st =
        (Inr (), st\<lparr>store_emojis := insertEmojis (store_emojis st) (drop 0 EMOJI_DATA)\<rparr>, calls)"
      using seedEmojis_mem[of EMOJI_DATA 0 st] by blast
    have "store_emojis ?st1 = insertEmojis [] EMOJI_DATA"
      using True seeded by (simp add: seedDatabase_def count split_beta seedPages_mem_emojis)
    then show ?thesis using assms by (simp add: length_insertEmojis)
  qed
  then show ?thesis by (simp add: seedDatabase_def count)
qed

lemma seedPages_mem_keeps:
  "list_ex P (store_pages st) \<Longrightarrow> list_ex P (store_pages (fst (seedPages memStorage stubs st)))"
proof (induction stubs arbitrary: st)
  case Nil
  then show ?case by simp
next
  case (Cons page rest)
  show ?case
  proof (cases "list_ex (\<lambda>p. page_slug p = page_slug page) (store_pages st)")
    case True
    then have "createPage memStorage st page = Inl (DuplicateKey (page_slug page))"
      by (simp add: memStorage_def mem_createPage_def)
    then show ?thesis using Cons.IH[OF Cons.prems] by (simp add: split_beta)
  next
    case False
    let ?created = "withId page (nextId (map page_id (store_pages st)))"
    let ?st' = "st\<lparr>store_pages := store_pages st @ [?created]\<rparr>"
    from False have create: "createPage memStorage st page = Inr (?created, ?st')"
      by (simp add: memStorage_def mem_createPage_def Let_def)
    have "list_ex P (store_pages ?st')" using Cons.prems by simp
    from Cons.IH[OF this] create show ?thesis by (simp add: split_beta)
  qed
qed

lemma seedPages_mem_all_slugs:
  "list_all (\<lambda>p. list_ex (\<lambda>q. page_slug q = page_slug p)
                 (store_pages (fst (seedPages memStorage stubs st)))) stubs"
proof (induction stubs arbitrary: st)
  case Nil
  show ?case by simp
next
  case (Cons page rest)
  show ?case
  proof (cases "list_ex (\<lambda>p. page_slug p = page_slug page) (store_pages st)")
    case True
    then have create: "createPage memStorage st page = Inl (DuplicateKey (page_slug page))"
      by (simp add: memStorage_def mem_createPage_def)
    have "list_ex (\<lambda>q. page_slug q = page_slug page)
        (store_pages (fst (seedPages memStorage rest st)))"
      using True by (rule seedPages_mem_keeps)
    with create Cons.IH[of st] show ?thesis by (simp add: split_beta)
  next
    case False
    let ?created = "withId page (nextId (map page_id (store_pages st)))"
    let ?st' = "st\<lparr>store_pages := store_pages st @ [?created]\<rparr>"
    from False have create: "createPage memStorage st page = Inr (?created, ?st')"
      by (simp add: memStorage_def mem_createPage_def Let_def)
    have "list_ex (\<lambda>q. page_slug q = page_slug page) (store_pages ?st')"
      by (simp add: withId_def)
    then have "list_ex (\<lambda>q. page_slug q = page_slug page)
        (store_pages (fst (seedPages memStorage rest ?st')))"
      by (rule seedPages_mem_keeps)
    with create Cons.IH[of ?st'] show ?thesis by (simp add: split_beta)
  qed
qed

subsection \<open>The ids stay distinct\<close>

text \<open>Several results above are about a page store whose ids are distinct. The
  operations on pages keep it so: a new page gets an id above every id in use, and an
  update changes no id.\<close>

lemma nextId_above: "i \<in> set ids \<Longrightarrow> i < nextId ids"
  by (induction ids) (auto simp: nextId_def)

lemma mem_createPage_distinct:
  assumes "distinct (map page_id (store_pages st))"
    and "createPage memStorage st page = Inr (created, st')"
  shows "distinct (map page_id (store_pages st'))"
proof -
  have "nextId (map page_id (store_pages st)) \<notin> set (map page_id (store_pages st))"
    using nextId_above[of "nextId (map page_id (store_pages st))" "map page_id (store_pages st)"]
    by auto
  then show ?thesis
    using assms
    by (auto simp: memStorage_def mem_createPage_def withId_def Let_def split: if_splits)
qed

lemma applyUpdate_id: "page_id (applyUpdate upd p) = page_id p"
  by (simp add: applyUpdate_def)

lemma mem_updatePage_distinct:
  assumes "distinct (map page_id (store_pages st))"
    and "updatePage memStorage st id' upd = Inr (updated, st')"
  shows "distinct (map page_id (store_pages st'))"
proof -
  from assms(2) consider "st' = st"
    | "st' = st\<lparr>store_pages :=
         map (\<lambda>q. if page_id q = id' then applyUpdate upd q else q) (store_pages st)\<rparr>"
    by (auto simp: memStorage_def mem_updatePage_def split: option.splits)
  then show ?thesis
  proof cases
    case 1
    with assms(1) show ?thesis by simp
  next
    case 2
    have "map page_id (store_pages st') = map page_id (store_pages st)"
      unfolding 2 by (simp add: comp_def if_distrib[of page_id] applyUpdate_id cong: if_cong)
    with assms(1) show ?thesis by simp
  qed
qed

end
